theory Spec2Isabelle
  imports Complex_Main "HOL-Library.Multiset"
begin

section \<open>Platform values\<close>

subsection \<open>Numbers\<close>

text \<open>
  A JavaScript \<^verbatim>\<open>number\<close>. Finite values are reals, and the sign of zero is abstracted
  away. The three non-finite values are kept, because the code divides without a guard and
  tests numbers for truthiness.
\<close>

datatype number = Num real | PosInfinity | NegInfinity | NaN

definition infinity :: "bool \<Rightarrow> number" where
  "infinity positive = (if positive then PosInfinity else NegInfinity)"

text \<open>The operators \<^verbatim>\<open>-\<close>, \<^verbatim>\<open>*\<close> and \<^verbatim>\<open>/\<close> on numbers.\<close>

fun js_minus :: "number \<Rightarrow> number \<Rightarrow> number" where
  "js_minus NaN b = NaN"
| "js_minus a NaN = NaN"
| "js_minus (Num x) (Num y) = Num (x - y)"
| "js_minus (Num x) PosInfinity = NegInfinity"
| "js_minus (Num x) NegInfinity = PosInfinity"
| "js_minus PosInfinity PosInfinity = NaN"
| "js_minus NegInfinity NegInfinity = NaN"
| "js_minus PosInfinity b = PosInfinity"
| "js_minus NegInfinity b = NegInfinity"

fun js_times :: "number \<Rightarrow> number \<Rightarrow> number" where
  "js_times NaN b = NaN"
| "js_times a NaN = NaN"
| "js_times (Num x) (Num y) = Num (x * y)"
| "js_times (Num x) b = (if x = 0 then NaN else infinity ((0 < x) = (b = PosInfinity)))"
| "js_times a (Num y) = (if y = 0 then NaN else infinity ((0 < y) = (a = PosInfinity)))"
| "js_times a b = infinity (a = b)"

fun js_divide :: "number \<Rightarrow> number \<Rightarrow> number" where
  "js_divide NaN b = NaN"
| "js_divide a NaN = NaN"
| "js_divide (Num x) (Num y) =
     (if y = 0 then (if x = 0 then NaN else infinity (0 < x)) else Num (x / y))"
| "js_divide (Num x) b = Num 0"
| "js_divide a (Num y) = infinity ((0 \<le> y) = (a = PosInfinity))"
| "js_divide a b = NaN"

text \<open>
  Rounding. The three operators above give the exact result on finite numbers; the
  platform's numbers are binary64, and each of its operations delivers the exact result
  rounded to the nearest representable value, ties to the even significand. \<open>double\<close>
  is that rounding: a finite \<open>x\<close> with \<open>2 ^ e \<le> \<bar>x\<bar> < 2 ^ (e + 1)\<close> is rounded to a
  multiple of \<open>2 ^ (e - 52)\<close>, below \<open>2 ^ (- 1022)\<close> to a multiple of \<open>2 ^ (- 1074)\<close>,
  and a result of magnitude \<open>2 ^ 1024\<close> or more is an infinity. Where a property depends
  on the rounding, the operation is written \<open>double (js_times a b)\<close>; the statistics of
  the charts are stated on the exact results.
\<close>

definition round_half_even :: "real \<Rightarrow> int" where
  "round_half_even y =
    (let f = \<lfloor>y\<rfloor>; d = y - of_int f
     in if d < 1 / 2 then f else if 1 / 2 < d then f + 1 else if even f then f else f + 1)"

definition double :: "number \<Rightarrow> number" where
  "double n =
    (case n of
       Num x \<Rightarrow>
         if x = 0 then Num 0
         else
           (let e = max \<lfloor>log 2 \<bar>x\<bar>\<rfloor> (- 1022);
                ulp = 2 powr (of_int e - 52);
                v = of_int (round_half_even (x / ulp)) * ulp
            in if 2 ^ 1024 \<le> \<bar>v\<bar> then infinity (0 < x) else Num v)
     | other \<Rightarrow> other)"

text \<open>Truthiness of a number: \<^verbatim>\<open>0\<close> and \<^verbatim>\<open>NaN\<close> are falsy.\<close>

definition truthy :: "number \<Rightarrow> bool" where
  "truthy n = (n \<noteq> Num 0 \<and> n \<noteq> NaN)"

subsection \<open>Fetch outcomes\<close>

text \<open>
  What an awaited \<^verbatim>\<open>fetch(...).json()\<close> hands to the code that follows it: the parsed
  body, or a rejection (network failure or a body that is not JSON), which the
  surrounding \<^verbatim>\<open>try\<close> catches.
\<close>

datatype 'a response = Rejected | Body 'a

section \<open>PriceChart\<close>

record HistoryItem =
  time :: string
  full_date :: string
  price :: number
  volume :: number

record Period =
  period_id :: string
  period_label :: string
  period_interval :: string

definition PERIODS :: "Period list" where
  "PERIODS =
    [\<lparr>period_id = ''1d'', period_label = ''1D'', period_interval = ''5m''\<rparr>,
     \<lparr>period_id = ''5d'', period_label = ''5D'', period_interval = ''15m''\<rparr>,
     \<lparr>period_id = ''1mo'', period_label = ''1M'', period_interval = ''1d''\<rparr>,
     \<lparr>period_id = ''1y'', period_label = ''1Y'', period_interval = ''1wk''\<rparr>,
     \<lparr>period_id = ''5y'', period_label = ''5Y'', period_interval = ''1mo''\<rparr>,
     \<lparr>period_id = ''max'', period_label = ''MAX'', period_interval = ''1mo''\<rparr>]"

record Stats =
  change :: number
  changePct :: number

text \<open>
  A history request as the effect closure holds it: the ticker and the period it was
  issued for (\<^verbatim>\<open>/api/history/${ticker}?period=${period.id}&interval=${period.interval}\<close>).
\<close>

type_synonym history_request = "string \<times> Period"

text \<open>
  The component: its props (\<open>pc_ticker\<close>, and whether the optional \<open>onStatsUpdate\<close>
  is given), its state hooks, and the two traces the properties are about: every fetch
  issued so far, and the fetches still awaiting their response. \<open>pc_statsUpdates\<close>
  records the calls of \<open>onStatsUpdate\<close>. The indicator state (simulated RSI and MACD
  from \<^verbatim>\<open>Math.random\<close>) and the two toggles are not part of the model.
\<close>

record PriceChart =
  pc_ticker :: string
  pc_onStatsUpdate :: bool
  pc_data :: "HistoryItem list"
  pc_loading :: bool
  pc_period :: Period
  pc_stats :: Stats
  pc_requests :: "history_request list"
  pc_pending :: "history_request list"
  pc_statsUpdates :: "(Stats \<times> string) list"

definition pc_initial :: "string \<Rightarrow> bool \<Rightarrow> PriceChart" where
  "pc_initial ticker callback =
    \<lparr>pc_ticker = ticker, pc_onStatsUpdate = callback, pc_data = [], pc_loading = True,
     pc_period = PERIODS ! 2, pc_stats = \<lparr>change = Num 0, changePct = Num 0\<rparr>,
     pc_requests = [], pc_pending = [], pc_statsUpdates = []\<rparr>"

text \<open>\<open>fetchHistory\<close> up to its first \<^verbatim>\<open>await\<close>: the loading flag and the request.\<close>

definition pc_fetchHistory :: "PriceChart \<Rightarrow> PriceChart" where
  "pc_fetchHistory st =
    st\<lparr>pc_loading := True,
       pc_requests := pc_requests st @ [(pc_ticker st, pc_period st)],
       pc_pending := pc_pending st @ [(pc_ticker st, pc_period st)]\<rparr>"

text \<open>
  \<open>fetchHistory\<close> after its awaits, for the request \<open>req\<close> its closure was created
  for: one uninterrupted run of the event loop.
\<close>

definition pc_settle :: "history_request \<Rightarrow> HistoryItem list response \<Rightarrow> PriceChart \<Rightarrow> PriceChart" where
  "pc_settle req resp st =
    (case resp of
       Rejected \<Rightarrow> st\<lparr>pc_loading := False\<rparr>
     | Body histData \<Rightarrow>
         (let st1 = st\<lparr>pc_data := histData\<rparr>;
              st2 =
                (if length histData > 1 then
                   (let first = price (histData ! 0);
                        last = price (histData ! (length histData - 1));
                        change = js_minus last first;
                        changePct = js_times (js_divide change first) (Num 100);
                        st' = st1\<lparr>pc_stats := \<lparr>change = change, changePct = changePct\<rparr>\<rparr>
                    in if pc_onStatsUpdate st'
                       then st'\<lparr>pc_statsUpdates := pc_statsUpdates st' @
                              [(\<lparr>change = change, changePct = changePct\<rparr>, period_label (snd req))]\<rparr>
                       else st')
                 else st1)
          in st2\<lparr>pc_loading := False\<rparr>))"

text \<open>The effect with dependencies \<^verbatim>\<open>[ticker, period]\<close>: on mount and on each change.\<close>

definition pc_mount :: "string \<Rightarrow> bool \<Rightarrow> PriceChart" where
  "pc_mount ticker callback = pc_fetchHistory (pc_initial ticker callback)"

definition pc_setPeriod :: "Period \<Rightarrow> PriceChart \<Rightarrow> PriceChart" where
  "pc_setPeriod p st = (if p = pc_period st then st else pc_fetchHistory (st\<lparr>pc_period := p\<rparr>))"

definition pc_setTicker :: "string \<Rightarrow> PriceChart \<Rightarrow> PriceChart" where
  "pc_setTicker t st = (if t = pc_ticker st then st else pc_fetchHistory (st\<lparr>pc_ticker := t\<rparr>))"

text \<open>The response to the \<open>i\<close>-th pending request arrives.\<close>

definition pc_resolve :: "nat \<Rightarrow> HistoryItem list response \<Rightarrow> PriceChart \<Rightarrow> PriceChart" where
  "pc_resolve i resp st =
    (if i < length (pc_pending st)
     then pc_settle (pc_pending st ! i) resp
            (st\<lparr>pc_pending := take i (pc_pending st) @ drop (Suc i) (pc_pending st)\<rparr>)
     else st)"

datatype pc_event =
  SetPeriod Period
| SetTicker string
| Resolve nat "HistoryItem list response"

fun pc_step :: "PriceChart \<Rightarrow> pc_event \<Rightarrow> PriceChart" where
  "pc_step st (SetPeriod p) = pc_setPeriod p st"
| "pc_step st (SetTicker t) = pc_setTicker t st"
| "pc_step st (Resolve i resp) = pc_resolve i resp st"

definition pc_run :: "PriceChart \<Rightarrow> pc_event list \<Rightarrow> PriceChart" where
  "pc_run = foldl pc_step"

section \<open>PortfolioPerformance\<close>

record PerformanceItem =
  perf_time :: string
  perf_price :: number

record PerfPeriod =
  perf_period_id :: string
  perf_period_label :: string

definition PERF_PERIODS :: "PerfPeriod list" where
  "PERF_PERIODS =
    [\<lparr>perf_period_id = ''1d'', perf_period_label = ''1D''\<rparr>,
     \<lparr>perf_period_id = ''1mo'', perf_period_label = ''1M''\<rparr>,
     \<lparr>perf_period_id = ''1y'', perf_period_label = ''1Y''\<rparr>,
     \<lparr>perf_period_id = ''max'', perf_period_label = ''MAX''\<rparr>]"

text \<open>A request \<^verbatim>\<open>/api/portfolio/${portfolioId}/history?period=${period.id}\<close>.\<close>

type_synonym performance_request = "string \<times> PerfPeriod"

record PortfolioPerformance =
  pp_portfolioId :: string
  pp_refreshKey :: int
  pp_data :: "PerformanceItem list"
  pp_loading :: bool
  pp_period :: PerfPeriod
  pp_stats :: Stats
  pp_requests :: "performance_request list"
  pp_pending :: "performance_request list"

definition pp_initial :: "string \<Rightarrow> int \<Rightarrow> PortfolioPerformance" where
  "pp_initial portfolioId refreshKey =
    \<lparr>pp_portfolioId = portfolioId, pp_refreshKey = refreshKey, pp_data = [],
     pp_loading = True, pp_period = PERF_PERIODS ! 1,
     pp_stats = \<lparr>change = Num 0, changePct = Num 0\<rparr>,
     pp_requests = [], pp_pending = []\<rparr>"

definition pp_fetchHistory :: "PortfolioPerformance \<Rightarrow> PortfolioPerformance" where
  "pp_fetchHistory st =
    st\<lparr>pp_loading := True,
       pp_requests := pp_requests st @ [(pp_portfolioId st, pp_period st)],
       pp_pending := pp_pending st @ [(pp_portfolioId st, pp_period st)]\<rparr>"

definition pp_settle :: "PerformanceItem list response \<Rightarrow> PortfolioPerformance \<Rightarrow> PortfolioPerformance" where
  "pp_settle resp st =
    (case resp of
       Rejected \<Rightarrow> st\<lparr>pp_loading := False\<rparr>
     | Body histData \<Rightarrow>
         (let st1 = st\<lparr>pp_data := histData\<rparr>;
              st2 =
                (if length histData > 1 then
                   (let first = perf_price (histData ! 0);
                        last = perf_price (histData ! (length histData - 1));
                        change = js_minus last first;
                        changePct = js_times (js_divide change first) (Num 100)
                    in st1\<lparr>pp_stats := \<lparr>change = change, changePct = changePct\<rparr>\<rparr>)
                 else st1)
          in st2\<lparr>pp_loading := False\<rparr>))"

text \<open>
  The effect with dependencies \<^verbatim>\<open>[portfolioId, period, refreshKey]\<close>; its body is
  \<^verbatim>\<open>if (portfolioId) fetchHistory()\<close>.
\<close>

definition pp_effect :: "PortfolioPerformance \<Rightarrow> PortfolioPerformance" where
  "pp_effect st = (if pp_portfolioId st \<noteq> [] then pp_fetchHistory st else st)"

definition pp_mount :: "string \<Rightarrow> int \<Rightarrow> PortfolioPerformance" where
  "pp_mount portfolioId refreshKey = pp_effect (pp_initial portfolioId refreshKey)"

definition pp_setPeriod :: "PerfPeriod \<Rightarrow> PortfolioPerformance \<Rightarrow> PortfolioPerformance" where
  "pp_setPeriod p st = (if p = pp_period st then st else pp_effect (st\<lparr>pp_period := p\<rparr>))"

definition pp_setPortfolioId :: "string \<Rightarrow> PortfolioPerformance \<Rightarrow> PortfolioPerformance" where
  "pp_setPortfolioId i st =
    (if i = pp_portfolioId st then st else pp_effect (st\<lparr>pp_portfolioId := i\<rparr>))"

definition pp_setRefreshKey :: "int \<Rightarrow> PortfolioPerformance \<Rightarrow> PortfolioPerformance" where
  "pp_setRefreshKey k st =
    (if k = pp_refreshKey st then st else pp_effect (st\<lparr>pp_refreshKey := k\<rparr>))"

definition pp_resolve :: "nat \<Rightarrow> PerformanceItem list response \<Rightarrow> PortfolioPerformance \<Rightarrow> PortfolioPerformance" where
  "pp_resolve i resp st =
    (if i < length (pp_pending st)
     then pp_settle resp
            (st\<lparr>pp_pending := take i (pp_pending st) @ drop (Suc i) (pp_pending st)\<rparr>)
     else st)"

section \<open>CurrencyProvider and AppContent\<close>

subsection \<open>JSON values and responses\<close>

datatype json =
  JNull
| JBool bool
| JNum number
| JStr string
| JArr "json list"
| JObj "(string \<times> json) list"

text \<open>Truthiness, as \<^verbatim>\<open>||\<close> and \<^verbatim>\<open>if\<close> test it.\<close>

fun json_truthy :: "json \<Rightarrow> bool" where
  "json_truthy JNull = False"
| "json_truthy (JBool b) = b"
| "json_truthy (JNum n) = truthy n"
| "json_truthy (JStr s) = (s \<noteq> [])"
| "json_truthy (JArr xs) = True"
| "json_truthy (JObj kvs) = True"

text \<open>
  The errors the platform raises in the code paths below. Their message texts belong to
  the engine, so a message is either a string of the program, the string conversion of a
  JSON value, or the engine's text for one of these errors.
\<close>

datatype js_error =
  SyntaxError_not_json
| TypeError_body_already_read
| TypeError_property_of_null
| TypeError_fetch_failed

datatype message =
  Text string
| StringOf json
| EngineText js_error

text \<open>
  Reading the property \<open>name\<close> of a parsed value: \<^verbatim>\<open>null.name\<close> throws, an object
  yields the member (the last one, if the text repeated the key) or \<^verbatim>\<open>undefined\<close>
  (\<open>None\<close>), every other value yields \<^verbatim>\<open>undefined\<close>.
\<close>

fun get_property :: "json \<Rightarrow> string \<Rightarrow> js_error + json option" where
  "get_property JNull name = Inl TypeError_property_of_null"
| "get_property (JObj kvs) name = Inr (map_of (rev kvs) name)"
| "get_property v name = Inr None"

text \<open>
  The body of a response: none at all, a text that is JSON (given by the value it parses
  to), or a text that is not JSON.
\<close>

datatype body = NullBody | JsonBody json | TextBody string

record Response =
  ok :: bool
  status :: nat
  statusText :: string
  body :: body

text \<open>
  A body can be read once. \<^verbatim>\<open>response.json()\<close> and \<^verbatim>\<open>response.text()\<close> both read it
  to the end; on a response whose body has been read they reject with a TypeError. The
  flag is the response's \<^verbatim>\<open>bodyUsed\<close>; a response without a body never sets it.
\<close>

definition consume_body :: "Response \<Rightarrow> bool \<Rightarrow> (js_error + body) \<times> bool" where
  "consume_body resp bodyUsed =
    (if bodyUsed then (Inl TypeError_body_already_read, bodyUsed)
     else (Inr (body resp), body resp \<noteq> NullBody))"

definition response_json :: "Response \<Rightarrow> bool \<Rightarrow> (js_error + json) \<times> bool" where
  "response_json resp bodyUsed =
    (case consume_body resp bodyUsed of
       (Inl e, used) \<Rightarrow> (Inl e, used)
     | (Inr (JsonBody j), used) \<Rightarrow> (Inr j, used)
     | (Inr b, used) \<Rightarrow> (Inl SyntaxError_not_json, used))"

text \<open>The text read is only logged, so the model keeps whether reading succeeded.\<close>

definition response_text :: "Response \<Rightarrow> bool \<Rightarrow> (js_error + unit) \<times> bool" where
  "response_text resp bodyUsed =
    (case consume_body resp bodyUsed of
       (Inl e, used) \<Rightarrow> (Inl e, used)
     | (Inr b, used) \<Rightarrow> (Inr (), used))"

text \<open>A number in a template literal: the decimal digits of a status code.\<close>

fun decimal :: "nat \<Rightarrow> string" where
  "decimal n =
    (if n < 10 then [char_of (48 + n)] else decimal (n div 10) @ [char_of (48 + n mod 10)])"

subsection \<open>The persisted state\<close>

text \<open>
  Browser storage maps keys to strings. The strings \<^verbatim>\<open>JSON.stringify\<close> produces are
  represented by the value they were produced from.
\<close>

datatype stored = Str string | Stringified json

text \<open>
  The state of \<open>CurrencyProvider\<close> (\<open>currency\<close>, \<open>exchangeRate\<close>) and of \<open>AppContent\<close>,
  with the storage both write to, the trace of analyze requests, and whether the tree is
  still mounted. The currency and the tab are strings: their initialisers take whatever
  string the storage holds (\<^verbatim>\<open>localStorage.getItem(...) as Currency\<close>), falling back to
  \<^verbatim>\<open>"USD"\<close> and \<^verbatim>\<open>"analyze"\<close>.
\<close>

record App =
  localStorage :: "string \<rightharpoonup> stored"
  currency :: string
  exchangeRate :: number
  activeTab :: string
  analysis :: "json option"
  loading :: bool
  error :: "message option"
  isChatOpen :: bool
  analyze_requests :: "string list"
  mounted :: bool

definition setItem :: "string \<Rightarrow> stored \<Rightarrow> App \<Rightarrow> App" where
  "setItem key v st = st\<lparr>localStorage := (localStorage st)(key \<mapsto> v)\<rparr>"

text \<open>The three effects that write to the storage.\<close>

definition currency_effect :: "App \<Rightarrow> App" where
  "currency_effect st = setItem ''preferred_currency'' (Str (currency st)) st"

definition activeTab_effect :: "App \<Rightarrow> App" where
  "activeTab_effect st = setItem ''activeTab'' (Str (activeTab st)) st"

definition analysis_effect :: "App \<Rightarrow> App" where
  "analysis_effect st =
    (case analysis st of
       None \<Rightarrow> st
     | Some a \<Rightarrow> if json_truthy a then setItem ''lastAnalysis'' (Stringified a) st else st)"

text \<open>
  A render and its commit. The state updates of one event are applied together and the
  tree is rendered once for the new state. When a component throws while rendering, the
  tree is unmounted (there is no error boundary) and none of that render's effects run;
  otherwise the render commits and the effects whose dependency changed run, those of
  \<open>AppContent\<close> before that of \<open>CurrencyProvider\<close> around it. Whether the tree renders
  a state without throwing is decided by the markup of every component on the active tab
  (\<open>AnalysisResult\<close> reads the members of the analysis it is given), so the model takes
  it as the parameter \<open>renders\<close>. The analysis set from a response is a new object, so
  its effect runs even if the value is the one before: \<open>fresh\<close> says so.
\<close>

definition run_effects :: "bool \<Rightarrow> App \<Rightarrow> App \<Rightarrow> App" where
  "run_effects fresh old new =
    (let s1 = (if activeTab new \<noteq> activeTab old then activeTab_effect new else new);
         s2 = (if fresh \<or> analysis s1 \<noteq> analysis old then analysis_effect s1 else s1)
     in if currency s2 \<noteq> currency old then currency_effect s2 else s2)"

definition rerender :: "(App \<Rightarrow> bool) \<Rightarrow> bool \<Rightarrow> App \<Rightarrow> App \<Rightarrow> App" where
  "rerender renders fresh old new =
    (if renders new then run_effects fresh old new else new\<lparr>mounted := False\<rparr>)"

text \<open>
  The first render: the state the initialisers produced, and, once it has committed,
  every effect run once. No exchange rate has been fetched yet: the rate is the number the
  literal \<^verbatim>\<open>0.92\<close> denotes, the binary64 nearest to it.
\<close>

definition initial_rate :: number where
  "initial_rate = Num (8286623314361713 / 2 ^ 53)"

definition App_initial :: "(string \<rightharpoonup> stored) \<Rightarrow> string \<Rightarrow> string \<Rightarrow> json option \<Rightarrow> App" where
  "App_initial store cur tab saved =
    \<lparr>localStorage = store, currency = cur, exchangeRate = initial_rate, activeTab = tab,
     analysis = saved, loading = False, error = None, isChatOpen = False,
     analyze_requests = [], mounted = True\<rparr>"

definition App_mount ::
    "(App \<Rightarrow> bool) \<Rightarrow> (string \<rightharpoonup> stored) \<Rightarrow> string \<Rightarrow> string \<Rightarrow> json option \<Rightarrow> App" where
  "App_mount renders store cur tab saved =
    (let st = App_initial store cur tab saved
     in if renders st then currency_effect (analysis_effect (activeTab_effect st))
        else st\<lparr>mounted := False\<rparr>)"

text \<open>The state setters, as the updates they queue.\<close>

definition setCurrency :: "string \<Rightarrow> App \<Rightarrow> App" where
  "setCurrency c st = st\<lparr>currency := c\<rparr>"

definition setActiveTab :: "string \<Rightarrow> App \<Rightarrow> App" where
  "setActiveTab t st = st\<lparr>activeTab := t\<rparr>"

definition setAnalysis :: "json option \<Rightarrow> App \<Rightarrow> App" where
  "setAnalysis a st = st\<lparr>analysis := a\<rparr>"

subsection \<open>The exchange rate and the conversion\<close>

text \<open>
  \<open>fetchRate\<close>, on mount and every hour: the \<open>rate\<close> member of the response (\<open>None\<close>
  when the response has none) replaces the stored rate when it is truthy; a failed request
  is logged.
\<close>

definition fetchRate :: "number option response \<Rightarrow> App \<Rightarrow> App" where
  "fetchRate resp st =
    (case resp of
       Rejected \<Rightarrow> st
     | Body None \<Rightarrow> st
     | Body (Some rate) \<Rightarrow> if truthy rate then st\<lparr>exchangeRate := rate\<rparr> else st)"

text \<open>\<open>convert\<close>: one multiplication or one division of the platform, so one rounding.\<close>

definition convert :: "App \<Rightarrow> number \<Rightarrow> string \<Rightarrow> number" where
  "convert st amount from =
    (if \<not> truthy amount then Num 0
     else if currency st = from then amount
     else if from = ''USD'' \<and> currency st = ''EUR''
     then double (js_times amount (exchangeRate st))
     else if from = ''EUR'' \<and> currency st = ''USD''
     then double (js_divide amount (exchangeRate st))
     else amount)"

subsection \<open>The analyze request\<close>

text \<open>\<open>handleSearch\<close> up to the fetch: four state updates and the request.\<close>

definition handleSearch_start :: "string \<Rightarrow> App \<Rightarrow> App" where
  "handleSearch_start ticker st =
    (let st1 = st\<lparr>loading := True, error := None\<rparr>;
         st2 = setActiveTab ''analyze'' (setAnalysis None st1)
     in st2\<lparr>analyze_requests := analyze_requests st2 @ [ticker]\<rparr>)"

text \<open>
  The inner \<^verbatim>\<open>catch\<close> of the branch for a response that is not ok: it reads the body as
  text, logs it, and builds the message from the status line. A rejected read leaves the
  block as a thrown error.
\<close>

definition error_fallback :: "Response \<Rightarrow> bool \<Rightarrow> js_error + message" where
  "error_fallback resp bodyUsed =
    (case response_text resp bodyUsed of
       (Inl e, used) \<Rightarrow> Inl e
     | (Inr u, used) \<Rightarrow>
         Inr (Text (''Server Error: '' @ decimal (status resp) @ '' '' @ statusText resp)))"

text \<open>
  The branch itself: \<open>Inr m\<close> is the message of the \<^verbatim>\<open>Error\<close> it throws, \<open>Inl e\<close> an
  error of the platform that escapes it.
\<close>

definition error_of_response :: "Response \<Rightarrow> js_error + message" where
  "error_of_response resp =
    (let errorMsg = Text ''Failed to fetch analysis''
     in case response_json resp False of
          (Inr errData, used) \<Rightarrow>
            (case get_property errData ''detail'' of
               Inl e \<Rightarrow> error_fallback resp used
             | Inr None \<Rightarrow> Inr errorMsg
             | Inr (Some detail) \<Rightarrow>
                 if json_truthy detail
                 then Inr (case detail of JStr s \<Rightarrow> Text s | v \<Rightarrow> StringOf v)
                 else Inr errorMsg)
        | (Inl e, used) \<Rightarrow> error_fallback resp used)"

text \<open>
  What the \<^verbatim>\<open>try\<close> of \<open>handleSearch\<close> ends with, given how the fetch settled: the
  analysis data, or the message the outer \<^verbatim>\<open>catch\<close> shows. Every error here is an
  \<^verbatim>\<open>Error\<close> instance, so its message is shown.
\<close>

definition analyze_result :: "Response response \<Rightarrow> message + json" where
  "analyze_result fetched =
    (case fetched of
       Rejected \<Rightarrow> Inl (EngineText TypeError_fetch_failed)
     | Body resp \<Rightarrow>
         if \<not> ok resp then
           (case error_of_response resp of
              Inl e \<Rightarrow> Inl (EngineText e)
            | Inr m \<Rightarrow> Inl m)
         else
           (case response_json resp False of
              (Inl e, used) \<Rightarrow> Inl (EngineText e)
            | (Inr data, used) \<Rightarrow> Inr data))"

text \<open>\<open>handleSearch\<close> from the settled fetch on: the state updates of its last part.\<close>

definition handleSearch_settle :: "Response response \<Rightarrow> App \<Rightarrow> App" where
  "handleSearch_settle fetched st =
    (case analyze_result fetched of
       Inr data \<Rightarrow> (setAnalysis (Some data) st)\<lparr>loading := False\<rparr>
     | Inl m \<Rightarrow> st\<lparr>error := Some m, loading := False\<rparr>)"

definition delivers_analysis :: "Response response \<Rightarrow> bool" where
  "delivers_analysis fetched = (case analyze_result fetched of Inr data \<Rightarrow> True | Inl m \<Rightarrow> False)"

text \<open>
  The events that reach the storage. Each applies its handler's updates and renders; a
  setter called with the value the state has renders nothing, and an unmounted tree takes
  no event.
\<close>

datatype app_event =
  SelectCurrency string
| SelectTab string
| Search string
| Fetched "Response response"
| RateFetched "number option response"

fun dispatch :: "(App \<Rightarrow> bool) \<Rightarrow> App \<Rightarrow> app_event \<Rightarrow> App" where
  "dispatch renders st (SelectCurrency c) =
    (if c = currency st then st else rerender renders False st (setCurrency c st))"
| "dispatch renders st (SelectTab t) =
    (if t = activeTab st then st else rerender renders False st (setActiveTab t st))"
| "dispatch renders st (Search ticker) =
    rerender renders False st (handleSearch_start ticker st)"
| "dispatch renders st (Fetched r) =
    rerender renders (delivers_analysis r) st (handleSearch_settle r st)"
| "dispatch renders st (RateFetched r) =
    (if exchangeRate (fetchRate r st) = exchangeRate st then st
     else rerender renders False st (fetchRate r st))"

definition app_step :: "(App \<Rightarrow> bool) \<Rightarrow> App \<Rightarrow> app_event \<Rightarrow> App" where
  "app_step renders st ev = (if mounted st then dispatch renders st ev else st)"

definition app_run :: "(App \<Rightarrow> bool) \<Rightarrow> App \<Rightarrow> app_event list \<Rightarrow> App" where
  "app_run renders = foldl (app_step renders)"

section \<open>Strings\<close>

text \<open>
  Strings are lists of code units, here those below 256. \<open>trim\<close> is
  \<^verbatim>\<open>String.prototype.trim\<close>: it removes white space and line terminators from both ends
  (tab, line feed, vertical tab, form feed, carriage return, space, no-break space).
\<close>

definition whitespace :: "char \<Rightarrow> bool" where
  "whitespace c = (of_char c \<in> {9, 10, 11, 12, 13, 32, 160 :: nat})"

definition trim_start :: "string \<Rightarrow> string" where
  "trim_start s = dropWhile whitespace s"

definition trim :: "string \<Rightarrow> string" where
  "trim s = rev (dropWhile whitespace (rev (dropWhile whitespace s)))"

section \<open>SearchBar\<close>

text \<open>
  The query, the pending debounce timer with the trimmed query its callback holds, and
  the suggestion requests issued so far: \<open>None\<close> is \<^verbatim>\<open>/api/search/suggestions\<close>, \<open>Some q\<close>
  is \<^verbatim>\<open>/api/search/suggestions?q=...\<close> for \<open>q\<close>. What the responses do to the suggestion
  list is not part of the model.
\<close>

record SearchBar =
  query :: string
  debounceTimer :: "string option"
  sb_requests :: "string option list"

text \<open>The effect with dependency \<^verbatim>\<open>[query]\<close>.\<close>

definition query_effect :: "SearchBar \<Rightarrow> SearchBar" where
  "query_effect st =
    (let trimmedQuery = trim (query st)
     in if length trimmedQuery > 1 then st\<lparr>debounceTimer := Some trimmedQuery\<rparr>
        else if length trimmedQuery = 0 then st\<lparr>sb_requests := sb_requests st @ [None]\<rparr>
        else st)"

text \<open>The first render runs the mount effect (the default suggestions) and the query effect.\<close>

definition sb_mount :: SearchBar where
  "sb_mount = query_effect \<lparr>query = [], debounceTimer = None, sb_requests = [None]\<rparr>"

definition sb_setQuery :: "string \<Rightarrow> SearchBar \<Rightarrow> SearchBar" where
  "sb_setQuery q st = (if q = query st then st else query_effect (st\<lparr>query := q\<rparr>))"

text \<open>The 300 ms have passed: the timer's callback fetches.\<close>

definition timer_fires :: "SearchBar \<Rightarrow> SearchBar" where
  "timer_fires st =
    (case debounceTimer st of
       None \<Rightarrow> st
     | Some q \<Rightarrow> st\<lparr>sb_requests := sb_requests st @ [Some q], debounceTimer := None\<rparr>)"

section \<open>DiscoveryPanel\<close>

record Etf =
  etf_ticker :: string
  etf_name :: string
  etf_ter :: number
  etf_change :: number
  etf_category :: "string option"

record SearchResult =
  res_ticker :: string
  res_name :: string

text \<open>
  The members of the \<^verbatim>\<open>/api/analysis/basic\<close> response that \<open>addSearchedEtf\<close> reads, each
  \<open>None\<close> when it or the object holding it is missing.
\<close>

record BasicAnalysis =
  ba_ter :: "number option"
  ba_change_1w :: "number option"
  ba_category :: "string option"

datatype dp_request = SearchRequest string | BasicAnalysisRequest string

text \<open>
  The ETF part of the panel's state. \<open>pending_adds\<close> holds the calls of
  \<open>addSearchedEtf\<close> that await their response: each with the \<open>selectedEtfs\<close> its
  closure captured and its argument.
\<close>

record DiscoveryPanel =
  selectedEtfs :: "Etf list"
  isComparing :: bool
  searchQuery :: string
  searchResults :: "SearchResult list"
  isSearching :: bool
  dp_requests :: "dp_request list"
  pending_adds :: "(Etf list \<times> SearchResult) list"

definition dp_initial :: DiscoveryPanel where
  "dp_initial =
    \<lparr>selectedEtfs = [], isComparing = False, searchQuery = [], searchResults = [],
     isSearching = False, dp_requests = [], pending_adds = []\<rparr>"

definition dp_handleSearch :: "string \<Rightarrow> DiscoveryPanel \<Rightarrow> DiscoveryPanel" where
  "dp_handleSearch q st =
    (let st1 = st\<lparr>searchQuery := q\<rparr>
     in if length q < 2 then st1\<lparr>searchResults := []\<rparr>
        else st1\<lparr>isSearching := True, dp_requests := dp_requests st1 @ [SearchRequest q]\<rparr>)"

definition dp_search_settled :: "SearchResult list response \<Rightarrow> DiscoveryPanel \<Rightarrow> DiscoveryPanel" where
  "dp_search_settled resp st =
    (case resp of
       Rejected \<Rightarrow> st\<lparr>isSearching := False\<rparr>
     | Body data \<Rightarrow> st\<lparr>searchResults := data, isSearching := False\<rparr>)"

text \<open>The click on a card of the ETF explorer.\<close>

definition etf_click :: "Etf \<Rightarrow> DiscoveryPanel \<Rightarrow> DiscoveryPanel" where
  "etf_click etf st =
    (let isSelected = (\<exists>s \<in> set (selectedEtfs st). etf_ticker s = etf_ticker etf)
     in if isSelected
        then st\<lparr>selectedEtfs := filter (\<lambda>s. etf_ticker s \<noteq> etf_ticker etf) (selectedEtfs st)\<rparr>
        else if length (selectedEtfs st) < 3
        then st\<lparr>selectedEtfs := selectedEtfs st @ [etf]\<rparr>
        else st)"

definition clear_selection :: "DiscoveryPanel \<Rightarrow> DiscoveryPanel" where
  "clear_selection st = st\<lparr>selectedEtfs := []\<rparr>"

text \<open>The compare button and its \<^verbatim>\<open>disabled\<close> attribute.\<close>

definition compare_disabled :: "DiscoveryPanel \<Rightarrow> bool" where
  "compare_disabled st = (length (selectedEtfs st) < 2 \<and> \<not> isComparing st)"

definition toggle_compare :: "DiscoveryPanel \<Rightarrow> DiscoveryPanel" where
  "toggle_compare st = (if compare_disabled st then st else st\<lparr>isComparing := \<not> isComparing st\<rparr>)"

text \<open>\<^verbatim>\<open>x || 0\<close> on an optional number and \<^verbatim>\<open>x || "Diverse"\<close> on an optional string.\<close>

definition number_or :: "number option \<Rightarrow> number \<Rightarrow> number" where
  "number_or x d = (case x of None \<Rightarrow> d | Some n \<Rightarrow> if truthy n then n else d)"

definition string_or :: "string option \<Rightarrow> string \<Rightarrow> string" where
  "string_or x d = (case x of None \<Rightarrow> d | Some s \<Rightarrow> if s \<noteq> [] then s else d)"

text \<open>\<open>addSearchedEtf\<close> up to its fetch, and from the response on.\<close>

definition addSearchedEtf_start :: "SearchResult \<Rightarrow> DiscoveryPanel \<Rightarrow> DiscoveryPanel" where
  "addSearchedEtf_start res st =
    st\<lparr>dp_requests := dp_requests st @ [BasicAnalysisRequest (res_ticker res)],
       pending_adds := pending_adds st @ [(selectedEtfs st, res)]\<rparr>"

definition addSearchedEtf_settle ::
    "nat \<Rightarrow> BasicAnalysis option response \<Rightarrow> DiscoveryPanel \<Rightarrow> DiscoveryPanel" where
  "addSearchedEtf_settle i resp st =
    (if i < length (pending_adds st) then
       (let (captured, res) = pending_adds st ! i;
            st1 = st\<lparr>pending_adds := take i (pending_adds st) @ drop (Suc i) (pending_adds st)\<rparr>;
            st2 =
              (case resp of
                 Body (Some data) \<Rightarrow>
                   (let newEtf =
                          \<lparr>etf_ticker = res_ticker res, etf_name = res_name res,
                           etf_ter = number_or (ba_ter data) (Num 0),
                           etf_change = number_or (ba_change_1w data) (Num 0),
                           etf_category = Some (string_or (ba_category data) ''Diverse'')\<rparr>
                    in if length captured < 3
                       then st1\<lparr>selectedEtfs := captured @ [newEtf]\<rparr> else st1)
               | _ \<Rightarrow>
                   if length captured < 3
                   then st1\<lparr>selectedEtfs := captured @
                          [\<lparr>etf_ticker = res_ticker res, etf_name = res_name res,
                            etf_ter = Num 0, etf_change = Num 0, etf_category = None\<rparr>]\<rparr>
                   else st1)
        in st2\<lparr>searchQuery := [], searchResults := []\<rparr>)
     else st)"

text \<open>
  The click on a search result: a result that is selected already only closes the
  search, any other goes to \<open>addSearchedEtf\<close>.
\<close>

definition search_result_click :: "SearchResult \<Rightarrow> DiscoveryPanel \<Rightarrow> DiscoveryPanel" where
  "search_result_click res st =
    (let isSelected = (\<exists>s \<in> set (selectedEtfs st). etf_ticker s = res_ticker res)
     in if \<not> isSelected then addSearchedEtf_start res st
        else st\<lparr>searchQuery := [], searchResults := []\<rparr>)"

datatype dp_event =
  ClickEtf Etf
| ClearSelection
| ToggleCompare
| TypeSearch string
| SearchSettled "SearchResult list response"
| ClickResult SearchResult
| AddSearched SearchResult
| AddSettled nat "BasicAnalysis option response"

fun dp_step :: "DiscoveryPanel \<Rightarrow> dp_event \<Rightarrow> DiscoveryPanel" where
  "dp_step st (ClickEtf etf) = etf_click etf st"
| "dp_step st ClearSelection = clear_selection st"
| "dp_step st ToggleCompare = toggle_compare st"
| "dp_step st (TypeSearch q) = dp_handleSearch q st"
| "dp_step st (SearchSettled resp) = dp_search_settled resp st"
| "dp_step st (ClickResult res) = search_result_click res st"
| "dp_step st (AddSearched res) = addSearchedEtf_start res st"
| "dp_step st (AddSettled i resp) = addSearchedEtf_settle i resp st"

definition dp_run :: "DiscoveryPanel \<Rightarrow> dp_event list \<Rightarrow> DiscoveryPanel" where
  "dp_run = foldl dp_step"

section \<open>usePortfolios\<close>

record Holding =
  ticker :: string
  shares :: number
  buyPrice :: "number option"

record Portfolio =
  portfolio_id :: string
  portfolio_name :: string
  holdings :: "Holding list"
  createdAt :: string

text \<open>The requests of the hook, by method and path.\<close>

datatype api_request =
  GET_portfolios
| POST_portfolios string
| DELETE_portfolio string
| POST_holdings string Holding
| DELETE_holding string string

text \<open>The body of the list response: an array of portfolios, or some other JSON value.\<close>

datatype listing = Listing "Portfolio list" | NotAnArray

record usePortfolios =
  portfolios :: "Portfolio list"
  up_loading :: bool
  up_requests :: "api_request list"

definition fetchPortfolios :: "listing response \<Rightarrow> usePortfolios \<Rightarrow> usePortfolios" where
  "fetchPortfolios resp st =
    (let st1 = st\<lparr>up_requests := up_requests st @ [GET_portfolios]\<rparr>;
         st2 =
           (case resp of
              Rejected \<Rightarrow> st1
            | Body (Listing data) \<Rightarrow> st1\<lparr>portfolios := data\<rparr>
            | Body NotAnArray \<Rightarrow> st1\<lparr>portfolios := []\<rparr>)
     in st2\<lparr>up_loading := False\<rparr>)"

definition up_mount :: "listing response \<Rightarrow> usePortfolios" where
  "up_mount resp = fetchPortfolios resp \<lparr>portfolios = [], up_loading = True, up_requests = []\<rparr>"

text \<open>
  The four mutations. Each takes the outcome of its own request; a rejected request
  throws out of the function, so nothing after it runs. The two holding mutations go on to
  \<open>fetchPortfolios\<close> and take the outcome of that request as well.
\<close>

definition createPortfolio :: "string \<Rightarrow> Portfolio response \<Rightarrow> usePortfolios \<Rightarrow> usePortfolios" where
  "createPortfolio name resp st =
    (let st1 = st\<lparr>up_requests := up_requests st @ [POST_portfolios name]\<rparr>
     in case resp of
          Rejected \<Rightarrow> st1
        | Body newPortfolio \<Rightarrow> st1\<lparr>portfolios := portfolios st1 @ [newPortfolio]\<rparr>)"

definition deletePortfolio :: "string \<Rightarrow> unit response \<Rightarrow> usePortfolios \<Rightarrow> usePortfolios" where
  "deletePortfolio pid resp st =
    (let st1 = st\<lparr>up_requests := up_requests st @ [DELETE_portfolio pid]\<rparr>
     in case resp of
          Rejected \<Rightarrow> st1
        | Body u \<Rightarrow> st1\<lparr>portfolios := filter (\<lambda>p. portfolio_id p \<noteq> pid) (portfolios st1)\<rparr>)"

definition addHolding ::
    "string \<Rightarrow> Holding \<Rightarrow> unit response \<Rightarrow> listing response \<Rightarrow> usePortfolios \<Rightarrow> usePortfolios" where
  "addHolding portfolioId holding resp listed st =
    (let st1 = st\<lparr>up_requests := up_requests st @ [POST_holdings portfolioId holding]\<rparr>
     in case resp of
          Rejected \<Rightarrow> st1
        | Body u \<Rightarrow> fetchPortfolios listed st1)"

definition removeHolding ::
    "string \<Rightarrow> string \<Rightarrow> unit response \<Rightarrow> listing response \<Rightarrow> usePortfolios \<Rightarrow> usePortfolios" where
  "removeHolding portfolioId t resp listed st =
    (let st1 = st\<lparr>up_requests := up_requests st @ [DELETE_holding portfolioId t]\<rparr>
     in case resp of
          Rejected \<Rightarrow> st1
        | Body u \<Rightarrow> fetchPortfolios listed st1)"

section \<open>Adding a holding\<close>

subsection \<open>parseFloat\<close>

definition digit :: "char \<Rightarrow> bool" where
  "digit c = (48 \<le> (of_char c :: nat) \<and> (of_char c :: nat) \<le> 57)"

text \<open>The value of a string of digits; the empty string counts 0.\<close>

definition digits_value :: "string \<Rightarrow> nat" where
  "digits_value ds = foldl (\<lambda>n c. 10 * n + (of_char c - 48)) 0 ds"

text \<open>An optional sign in front of the rest of the string: the sign read, and the rest.\<close>

fun read_sign :: "string \<Rightarrow> bool \<times> string" where
  "read_sign [] = (False, [])"
| "read_sign (c # cs) =
    (if c = CHR ''-'' then (True, cs) else if c = CHR ''+'' then (False, cs) else (False, c # cs))"

text \<open>
  The exponent part at the front of a string, if there is a complete one: \<open>e\<close> or \<open>E\<close>,
  an optional sign, at least one digit. Otherwise the exponent is 0, since the longest
  prefix that is a literal ends before it.
\<close>

definition read_exponent :: "string \<Rightarrow> int" where
  "read_exponent s =
    (case s of
       [] \<Rightarrow> 0
     | c # cs \<Rightarrow>
         if c = CHR ''e'' \<or> c = CHR ''E'' then
           (let (negative, rest) = read_sign cs; ds = takeWhile digit rest
            in if ds = [] then 0
               else if negative then - int (digits_value ds) else int (digits_value ds))
         else 0)"

definition scale :: "real \<Rightarrow> int \<Rightarrow> real" where
  "scale x e = (if 0 \<le> e then x * 10 ^ nat e else x / 10 ^ nat (- e))"

text \<open>
  \<^verbatim>\<open>parseFloat\<close>: leading white space is skipped, then the longest prefix that is a
  decimal literal is converted, its value rounded to the nearest number of the platform;
  without such a prefix the result is \<open>NaN\<close>.
\<close>

definition parseFloat :: "string \<Rightarrow> number" where
  "parseFloat s =
    (let (negative, s1) = read_sign (trim_start s)
     in if take 8 s1 = ''Infinity'' then infinity (\<not> negative)
        else
          (let whole = takeWhile digit s1;
               s2 = dropWhile digit s1;
               fraction = (case s2 of [] \<Rightarrow> [] | c # cs \<Rightarrow>
                             if c = CHR ''.'' then takeWhile digit cs else []);
               s3 = (case s2 of [] \<Rightarrow> [] | c # cs \<Rightarrow>
                       if c = CHR ''.'' \<and> (whole \<noteq> [] \<or> fraction \<noteq> [])
                       then dropWhile digit cs else s2)
           in if whole = [] \<and> fraction = [] then NaN
              else
                (let magnitude =
                       scale (real (digits_value whole)
                              + real (digits_value fraction) / 10 ^ length fraction)
                         (read_exponent s3)
                 in double (Num (if negative then - magnitude else magnitude)))))"

subsection \<open>The value of a number input\<close>

text \<open>
  The shares and the price are typed into \<^verbatim>\<open><input type="number">\<close>. The value such an
  element reports is sanitised by the platform: it is the text when the text is a valid
  floating-point number, and the empty string otherwise. A valid floating-point number is
  an optional \<open>-\<close>, then digits, or a \<open>.\<close> with digits behind it, or both, then optionally
  an exponent: \<open>e\<close> or \<open>E\<close>, an optional sign, digits.
\<close>

definition valid_exponent :: "string \<Rightarrow> bool" where
  "valid_exponent s =
    (case s of
       [] \<Rightarrow> True
     | c # cs \<Rightarrow>
         (c = CHR ''e'' \<or> c = CHR ''E'')
         \<and> (let ds = (case cs of
                         [] \<Rightarrow> []
                       | d # rest \<Rightarrow> if d = CHR ''-'' \<or> d = CHR ''+'' then rest else cs)
            in ds \<noteq> [] \<and> list_all digit ds))"

definition valid_floating_point_number :: "string \<Rightarrow> bool" where
  "valid_floating_point_number s =
    (let s1 = (case s of [] \<Rightarrow> [] | c # cs \<Rightarrow> if c = CHR ''-'' then cs else s);
         whole = takeWhile digit s1;
         s2 = dropWhile digit s1
     in case s2 of
          [] \<Rightarrow> whole \<noteq> []
        | c # cs \<Rightarrow>
            if c = CHR ''.''
            then takeWhile digit cs \<noteq> [] \<and> valid_exponent (dropWhile digit cs)
            else whole \<noteq> [] \<and> valid_exponent s2)"

definition number_input_value :: "string \<Rightarrow> string" where
  "number_input_value text = (if valid_floating_point_number text then text else [])"

text \<open>
  The texts the shares state holds: those a number field reports, among them the initial
  \<open>1\<close>.
\<close>

definition number_text :: "string \<Rightarrow> bool" where
  "number_text s = (s = [] \<or> valid_floating_point_number s)"

text \<open>
  What decides whether \<open>parseFloat\<close> makes a number of the text behind the sign: digits
  in front, or a point with digits behind it.
\<close>

definition has_digits :: "string \<Rightarrow> bool" where
  "has_digits s1 =
    (takeWhile digit s1 \<noteq> []
     \<or> (case dropWhile digit s1 of
           [] \<Rightarrow> False
         | c # cs \<Rightarrow> c = CHR ''.'' \<and> takeWhile digit cs \<noteq> []))"

subsection \<open>AddHoldingModal\<close>

text \<open>
  The form state of the modal, and the calls it has made of its two callback props:
  \<open>onAdd\<close> with its arguments, \<open>onClose\<close> counted.
\<close>

record AddHoldingModal =
  modal_ticker :: string
  modal_shares :: string
  modal_buyPrice :: string
  selectedPortfolioId :: string
  onAdd_calls :: "(string \<times> Holding) list"
  onClose_calls :: nat

text \<open>
  The initial state, from the props: the initial ticker, and the id of the first
  portfolio, empty when there is none.
\<close>

definition modal_initial :: "string \<Rightarrow> string \<Rightarrow> AddHoldingModal" where
  "modal_initial initialTicker first =
    \<lparr>modal_ticker = initialTicker, modal_shares = ''1'', modal_buyPrice = [],
     selectedPortfolioId = first, onAdd_calls = [], onClose_calls = 0\<rparr>"

text \<open>
  \<open>handleAdd\<close>, with the currency context it reads. \<^verbatim>\<open>String.prototype.toUpperCase\<close> is
  the platform's, taken as the parameter \<open>toUpperCase\<close>.
\<close>

definition handleAdd ::
    "(string \<Rightarrow> string) \<Rightarrow> App \<Rightarrow> AddHoldingModal \<Rightarrow> AddHoldingModal" where
  "handleAdd toUpperCase ctx st =
    (if modal_ticker st = [] \<or> modal_shares st = [] \<or> selectedPortfolioId st = [] then st
     else
       (let priceInUSD =
              (if modal_buyPrice st \<noteq> [] then Some (parseFloat (modal_buyPrice st)) else None);
            priceInUSD' =
              (case priceInUSD of
                 Some parsed \<Rightarrow>
                   if currency ctx = ''EUR''
                   then Some (double (js_divide parsed (exchangeRate ctx)))
                   else Some parsed
               | None \<Rightarrow> None)
        in st\<lparr>onAdd_calls := onAdd_calls st @
                 [(selectedPortfolioId st,
                   \<lparr>ticker = toUpperCase (modal_ticker st),
                    shares = parseFloat (modal_shares st),
                    buyPrice = priceInUSD'\<rparr>)],
               onClose_calls := Suc (onClose_calls st)\<rparr>))"

text \<open>
  The effect of the modal, run when a prop or the currency changes: it takes over a
  non-empty initial ticker, sets the price text (\<open>priceText\<close> is what \<^verbatim>\<open>toFixed(2)\<close> made
  of the converted initial price, empty without an initial price), and selects the first
  portfolio when none is selected.
\<close>

definition modal_effect ::
    "string \<Rightarrow> string \<Rightarrow> string option \<Rightarrow> AddHoldingModal \<Rightarrow> AddHoldingModal" where
  "modal_effect initialTicker priceText first st =
    (let st1 = (if initialTicker \<noteq> [] then st\<lparr>modal_ticker := initialTicker\<rparr> else st);
         st2 = st1\<lparr>modal_buyPrice := priceText\<rparr>
     in case first of
          None \<Rightarrow> st2
        | Some pid \<Rightarrow> if selectedPortfolioId st2 = [] then st2\<lparr>selectedPortfolioId := pid\<rparr> else st2)"

text \<open>
  Everything that changes the modal's state: text typed into the ticker field, into the
  two number fields, a portfolio chosen, the effect, and a click on the add button with
  the currency context of that render.
\<close>

datatype modal_event =
  TickerInput string
| SharesInput string
| BuyPriceInput string
| PortfolioChosen string
| PropsChanged string string "string option"
| AddClicked App

fun modal_step ::
    "(string \<Rightarrow> string) \<Rightarrow> AddHoldingModal \<Rightarrow> modal_event \<Rightarrow> AddHoldingModal" where
  "modal_step toUpperCase st (TickerInput text) = st\<lparr>modal_ticker := toUpperCase text\<rparr>"
| "modal_step toUpperCase st (SharesInput text) = st\<lparr>modal_shares := number_input_value text\<rparr>"
| "modal_step toUpperCase st (BuyPriceInput text) =
    st\<lparr>modal_buyPrice := number_input_value text\<rparr>"
| "modal_step toUpperCase st (PortfolioChosen pid) = st\<lparr>selectedPortfolioId := pid\<rparr>"
| "modal_step toUpperCase st (PropsChanged initialTicker priceText first) =
    modal_effect initialTicker priceText first st"
| "modal_step toUpperCase st (AddClicked ctx) = handleAdd toUpperCase ctx st"

definition modal_run ::
    "(string \<Rightarrow> string) \<Rightarrow> AddHoldingModal \<Rightarrow> modal_event list \<Rightarrow> AddHoldingModal" where
  "modal_run toUpperCase = foldl (modal_step toUpperCase)"

subsection \<open>PortfolioView\<close>

record NewHolding =
  new_ticker :: string
  new_shares :: string
  new_buyPrice :: string

record PortfolioView =
  selectedPortfolio :: "string option"
  newHolding :: NewHolding
  showAddHoldingModal :: bool
  onAddHolding_calls :: "(string \<times> Holding) list"

definition pv_initial :: PortfolioView where
  "pv_initial =
    \<lparr>selectedPortfolio = None,
     newHolding = \<lparr>new_ticker = [], new_shares = [], new_buyPrice = []\<rparr>,
     showAddHoldingModal = False, onAddHolding_calls = []\<rparr>"

definition handleAddHolding :: "(string \<Rightarrow> string) \<Rightarrow> PortfolioView \<Rightarrow> PortfolioView" where
  "handleAddHolding toUpperCase st =
    (case selectedPortfolio st of
       None \<Rightarrow> st
     | Some portfolio \<Rightarrow>
         if portfolio \<noteq> [] \<and> new_ticker (newHolding st) \<noteq> [] \<and> new_shares (newHolding st) \<noteq> []
         then
           st\<lparr>onAddHolding_calls := onAddHolding_calls st @
                 [(portfolio,
                   \<lparr>ticker = toUpperCase (new_ticker (newHolding st)),
                    shares = parseFloat (new_shares (newHolding st)),
                    buyPrice =
                      (if new_buyPrice (newHolding st) \<noteq> []
                       then Some (parseFloat (new_buyPrice (newHolding st))) else None)\<rparr>)],
               newHolding := \<lparr>new_ticker = [], new_shares = [], new_buyPrice = []\<rparr>,
               showAddHoldingModal := False\<rparr>
         else st)"

text \<open>
  Everything that changes this part of the view's state: a portfolio selected or the
  selection dropped, a suggested asset taken over (\<open>AssetSuggestions\<close>), the modal
  opened or closed. No element of the view calls \<open>handleAddHolding\<close>; the model lets it
  run at any time.
\<close>

datatype pv_event =
  PortfolioSelected "string option"
| SuggestionTaken string
| ModalOpened
| ModalClosed
| AddHoldingCalled

fun pv_step :: "(string \<Rightarrow> string) \<Rightarrow> PortfolioView \<Rightarrow> pv_event \<Rightarrow> PortfolioView" where
  "pv_step toUpperCase st (PortfolioSelected p) = st\<lparr>selectedPortfolio := p\<rparr>"
| "pv_step toUpperCase st (SuggestionTaken t) =
    st\<lparr>newHolding := \<lparr>new_ticker = t, new_shares = ''1'', new_buyPrice = []\<rparr>,
       showAddHoldingModal := True\<rparr>"
| "pv_step toUpperCase st ModalOpened = st\<lparr>showAddHoldingModal := True\<rparr>"
| "pv_step toUpperCase st ModalClosed = st\<lparr>showAddHoldingModal := False\<rparr>"
| "pv_step toUpperCase st AddHoldingCalled = handleAddHolding toUpperCase st"

definition pv_run ::
    "(string \<Rightarrow> string) \<Rightarrow> PortfolioView \<Rightarrow> pv_event list \<Rightarrow> PortfolioView" where
  "pv_run toUpperCase = foldl (pv_step toUpperCase)"

section \<open>MarketSentiment\<close>

subsection \<open>Comparisons and sorting\<close>

text \<open>\<^verbatim>\<open>a <= b\<close> and \<^verbatim>\<open>v > 0\<close> on numbers; every comparison with \<open>NaN\<close> is false.\<close>

fun js_le :: "number \<Rightarrow> number \<Rightarrow> bool" where
  "js_le NaN b = False"
| "js_le a NaN = False"
| "js_le (Num x) (Num y) = (x \<le> y)"
| "js_le NegInfinity b = True"
| "js_le a PosInfinity = True"
| "js_le a b = False"

fun positive :: "number \<Rightarrow> bool" where
  "positive (Num x) = (0 < x)"
| "positive PosInfinity = True"
| "positive v = False"

fun finite_number :: "number \<Rightarrow> bool" where
  "finite_number (Num x) = True"
| "finite_number v = False"

text \<open>
  \<^verbatim>\<open>Array.prototype.sort\<close> with a comparator. The sort is stable, and an element goes
  behind another exactly when the comparator's result for the pair is positive (a \<open>NaN\<close>
  result counts as 0). For a comparator that orders the elements consistently this fixes
  the result, which insertion from the right computes; for an inconsistent comparator the
  platform leaves the order open.
\<close>

fun place :: "('a \<Rightarrow> 'a \<Rightarrow> number) \<Rightarrow> 'a \<Rightarrow> 'a list \<Rightarrow> 'a list" where
  "place cmp x [] = [x]"
| "place cmp x (y # ys) = (if positive (cmp x y) then y # place cmp x ys else x # y # ys)"

fun js_sort :: "('a \<Rightarrow> 'a \<Rightarrow> number) \<Rightarrow> 'a list \<Rightarrow> 'a list" where
  "js_sort cmp [] = []"
| "js_sort cmp (x # xs) = place cmp x (js_sort cmp xs)"

subsection \<open>The heatmap and the store of arrays\<close>

record HotStock =
  stock_ticker :: string
  stock_price :: number
  change_1w :: number
  stock_name :: string

text \<open>An entry of the heatmap; \<open>hot_stocks\<close> refers to an array in the store, if present.\<close>

record HeatmapItem =
  sector :: string
  sentiment_score :: number
  sentiment_status :: string
  strength :: number
  hot_stocks :: "nat option"

text \<open>
  Arrays are objects: \<^verbatim>\<open>sort\<close> reorders the array it is called on, and \<^verbatim>\<open>[...xs]\<close>
  makes a new one. The store maps references to the arrays' contents; \<open>next_ref\<close> is the
  first reference not in use.
\<close>

record Store =
  item_arrays :: "nat \<rightharpoonup> HeatmapItem list"
  stock_arrays :: "nat \<rightharpoonup> HotStock list"
  next_ref :: nat

text \<open>The two comparators of the component.\<close>

definition by_strength :: "HeatmapItem \<Rightarrow> HeatmapItem \<Rightarrow> number" where
  "by_strength a b = js_minus (strength b) (strength a)"

definition by_change_1w :: "HotStock \<Rightarrow> HotStock \<Rightarrow> number" where
  "by_change_1w a b = js_minus (change_1w b) (change_1w a)"

definition sort_items :: "nat \<Rightarrow> Store \<Rightarrow> Store" where
  "sort_items r store =
    (case item_arrays store r of
       None \<Rightarrow> store
     | Some xs \<Rightarrow> store\<lparr>item_arrays := (item_arrays store)(r \<mapsto> js_sort by_strength xs)\<rparr>)"

definition sort_stocks :: "nat \<Rightarrow> Store \<Rightarrow> Store" where
  "sort_stocks r store =
    (case stock_arrays store r of
       None \<Rightarrow> store
     | Some xs \<Rightarrow> store\<lparr>stock_arrays := (stock_arrays store)(r \<mapsto> js_sort by_change_1w xs)\<rparr>)"

text \<open>The contents of an optional stock array, \<^verbatim>\<open>item.hot_stocks || []\<close>.\<close>

definition stocks_of :: "Store \<Rightarrow> nat option \<Rightarrow> HotStock list" where
  "stocks_of store ref =
    (case ref of
       None \<Rightarrow> []
     | Some r \<Rightarrow> (case stock_arrays store r of None \<Rightarrow> [] | Some xs \<Rightarrow> xs))"

text \<open>\<^verbatim>\<open>[...(item.hot_stocks || [])]\<close>: a new array with the same elements.\<close>

definition spread_stocks :: "nat option \<Rightarrow> Store \<Rightarrow> nat \<times> Store" where
  "spread_stocks ref store =
    (next_ref store,
     store\<lparr>stock_arrays := (stock_arrays store)(next_ref store \<mapsto> stocks_of store ref),
           next_ref := Suc (next_ref store)\<rparr>)"

text \<open>What a card shows: the entry, its colour scheme, and the popover's list.\<close>

record Card =
  card_item :: HeatmapItem
  isBullish :: bool
  sortedStocks :: "HotStock list"

definition render_card :: "HeatmapItem \<Rightarrow> Store \<Rightarrow> Card \<times> Store" where
  "render_card item store =
    (let (copy, s1) = spread_stocks (hot_stocks item) store;
         s2 = sort_stocks copy s1
     in (\<lparr>card_item = item, isBullish = positive (sentiment_score item),
          sortedStocks = stocks_of s2 (Some copy)\<rparr>, s2))"

fun render_cards :: "HeatmapItem list \<Rightarrow> Store \<Rightarrow> Card list \<times> Store" where
  "render_cards [] store = ([], store)"
| "render_cards (item # items) store =
    (let (shown, s1) = render_card item store;
         (cards, s2) = render_cards items s1
     in (shown # cards, s2))"

text \<open>
  The body of the component once loaded, for the array the \<open>heatmap\<close> state refers to:
  \<^verbatim>\<open>heatmap.sort(...).map(...)\<close>.
\<close>

definition render_heatmap :: "nat \<Rightarrow> Store \<Rightarrow> Card list \<times> Store" where
  "render_heatmap heatmap store =
    (let s1 = sort_items heatmap store
     in render_cards (case item_arrays s1 heatmap of None \<Rightarrow> [] | Some xs \<Rightarrow> xs) s1)"

text \<open>A fetched heatmap of three sectors, one of them without hot stocks.\<close>

definition example_stocks :: "HotStock list" where
  "example_stocks =
    [\<lparr>stock_ticker = ''AMD'', stock_price = Num 120, change_1w = Num (- 2), stock_name = ''AMD''\<rparr>,
     \<lparr>stock_ticker = ''NVDA'', stock_price = Num 900, change_1w = Num 7, stock_name = ''Nvidia''\<rparr>,
     \<lparr>stock_ticker = ''MSFT'', stock_price = Num 400, change_1w = Num 3, stock_name = ''Microsoft''\<rparr>]"

definition example_heatmap :: "HeatmapItem list" where
  "example_heatmap =
    [\<lparr>sector = ''Energy'', sentiment_score = Num (- 1), sentiment_status = ''Bearish'',
      strength = Num 40, hot_stocks = None\<rparr>,
     \<lparr>sector = ''Tech'', sentiment_score = Num 2, sentiment_status = ''Bullish'',
      strength = Num 85, hot_stocks = Some 1\<rparr>,
     \<lparr>sector = ''Health'', sentiment_score = Num 1, sentiment_status = ''Bullish'',
      strength = Num 60, hot_stocks = Some 2\<rparr>]"

definition example_heap :: Store where
  "example_heap =
    \<lparr>item_arrays = [0 \<mapsto> example_heatmap],
     stock_arrays = [1 \<mapsto> example_stocks, 2 \<mapsto> []],
     next_ref = 3\<rparr>"

section \<open>The period statistics as the specification words them\<close>

text \<open>
  The specification's formula over the price column of a series: the change is the last
  price minus the first, the percentage is that change over the first price, times 100.
\<close>

definition spec_stats :: "number list \<Rightarrow> Stats" where
  "spec_stats prices =
    \<lparr>change = js_minus (last prices) (hd prices),
     changePct = js_times (js_divide (js_minus (last prices) (hd prices)) (hd prices)) (Num 100)\<rparr>"

text \<open>Two short series whose first price is 0.\<close>

definition example_history :: "HistoryItem list" where
  "example_history =
    [\<lparr>time = ''09:30'', full_date = ''2024-01-02 09:30'', price = Num 0, volume = Num 100\<rparr>,
     \<lparr>time = ''09:35'', full_date = ''2024-01-02 09:35'', price = Num 8, volume = Num 50\<rparr>,
     \<lparr>time = ''09:40'', full_date = ''2024-01-02 09:40'', price = Num 12, volume = Num 70\<rparr>]"

definition example_performance :: "PerformanceItem list" where
  "example_performance =
    [\<lparr>perf_time = ''Jan'', perf_price = Num 0\<rparr>, \<lparr>perf_time = ''Feb'', perf_price = Num 0\<rparr>]"

section \<open>Example inputs for the currency, storage and analyze properties\<close>


text \<open>
  An analysis that \<open>AnalysisResult\<close> renders: the ticker and the company name are strings,
  the \<open>analysis\<close> member (whose entries it maps over) is an empty object, and every other
  member it reads is absent, which its optional chaining and its guards allow.
\<close>

definition example_analysis :: json where
  "example_analysis =
    JObj [(''ticker'', JStr ''AAPL''), (''company_name'', JStr ''Apple Inc.''),
          (''analysis'', JObj [])]"


text \<open>
  The render predicate of the example runs. In one of the two currencies of the toggle,
  it accepts the analyze tab with no analysis or with the example analysis
  (\<open>AnalysisResult\<close> reads \<open>ticker\<close> and \<open>company_name\<close>, lists the entries of the
  member \<open>analysis\<close>, and reads every other member behind a guard or an optional chain),
  and the portfolio tab with no analysis, where the view shows its empty list of
  portfolios. It refuses every other state, among them an analysis without the member
  \<open>analysis\<close>, for which \<^verbatim>\<open>Object.entries(analysis)\<close> throws.
\<close>

definition renders_example :: "App \<Rightarrow> bool" where
  "renders_example st =
    (currency st \<in> {''USD'', ''EUR''}
     \<and> (activeTab st = ''analyze'' \<and> analysis st \<in> {None, Some example_analysis}
        \<or> activeTab st = ''portfolio'' \<and> analysis st = None))"







text \<open>The amount 1.1, as the binary64 nearest to it.\<close>

definition example_amount :: real where
  "example_amount = 4953959590107546 / 2 ^ 52"

text \<open>The application as mounted, before a rate has been fetched.\<close>

definition example_rate_run :: App where
  "example_rate_run = App_mount renders_example Map.empty ''USD'' ''analyze'' None"

text \<open>The backend sends a rate too large for a finite number: it parses to \<open>Infinity\<close>.\<close>

definition infinite_rate_run :: App where
  "infinite_rate_run =
    app_run renders_example (App_mount renders_example Map.empty ''USD'' ''analyze'' None)
      [RateFetched (Body (Some PosInfinity))]"

text \<open>The backend sends the rate 2.\<close>

definition doubling_rate_run :: App where
  "doubling_rate_run =
    app_run renders_example (App_mount renders_example Map.empty ''USD'' ''analyze'' None)
      [RateFetched (Body (Some (Num 2)))]"

definition example_error_response :: Response where
  "example_error_response =
    \<lparr>ok = False, status = 500, statusText = ''Internal Server Error'',
     body = TextBody ''<html><body>Internal Server Error</body></html>''\<rparr>"

section \<open>Example run of the chart with two overlapping requests\<close>

definition series_1mo :: "HistoryItem list" where
  "series_1mo =
    [\<lparr>time = ''Dec 02'', full_date = ''2024-12-02'', price = Num 100, volume = Num 10\<rparr>,
     \<lparr>time = ''Jan 02'', full_date = ''2025-01-02'', price = Num 110, volume = Num 12\<rparr>]"

definition series_1y :: "HistoryItem list" where
  "series_1y =
    [\<lparr>time = ''Jan 24'', full_date = ''2024-01-02'', price = Num 80, volume = Num 10\<rparr>,
     \<lparr>time = ''Jan 25'', full_date = ''2025-01-02'', price = Num 110, volume = Num 12\<rparr>]"

definition series_5d :: "HistoryItem list" where
  "series_5d =
    [\<lparr>time = ''Mon'', full_date = ''2024-12-27'', price = Num 108, volume = Num 10\<rparr>,
     \<lparr>time = ''Thu'', full_date = ''2025-01-02'', price = Num 110, volume = Num 12\<rparr>]"

text \<open>
  The first response arrives; the user selects 1Y and at once 5D; the response to the 5D
  request arrives before the response to the 1Y request.
\<close>

definition rapid_switch :: "pc_event list" where
  "rapid_switch =
    [Resolve 0 (Body series_1mo), SetPeriod (PERIODS ! 3), SetPeriod (PERIODS ! 1),
     Resolve 1 (Body series_5d), Resolve 0 (Body series_1y)]"

section \<open>The bound on the ETF selection, and example selections\<close>

text \<open>
  The selection holds at most three entries, and so does every selection a pending
  \<open>addSearchedEtf\<close> captured.
\<close>

definition selection_bounded :: "DiscoveryPanel \<Rightarrow> bool" where
  "selection_bounded st =
    (length (selectedEtfs st) \<le> 3 \<and> (\<forall>c \<in> set (pending_adds st). length (fst c) \<le> 3))"

definition etf_named :: "string \<Rightarrow> Etf" where
  "etf_named t =
    \<lparr>etf_ticker = t, etf_name = t, etf_ter = Num 0.2, etf_change = Num 1,
     etf_category = Some ''Equity''\<rparr>"

definition searched_etf :: SearchResult where
  "searched_etf = \<lparr>res_ticker = ''ARKK'', res_name = ''ARK Innovation''\<rparr>"

definition searched_analysis :: BasicAnalysis where
  "searched_analysis = \<lparr>ba_ter = Some (Num 0.75), ba_change_1w = None, ba_category = None\<rparr>"

text \<open>
  Two cards are selected, the search result ARKK is clicked, and while its request is
  under way a third card is selected.
\<close>

definition add_pending :: DiscoveryPanel where
  "add_pending =
    dp_run dp_initial [ClickEtf (etf_named ''VOO''), ClickEtf (etf_named ''QQQ''),
      ClickResult searched_etf, ClickEtf (etf_named ''VTI'')]"

section \<open>Example inputs for the portfolio properties\<close>

definition example_portfolio :: Portfolio where
  "example_portfolio =
    \<lparr>portfolio_id = ''p1'', portfolio_name = ''Tech'', holdings = [],
     createdAt = ''2025-01-02T10:00:00''\<rparr>"

definition example_portfolios :: usePortfolios where
  "example_portfolios = up_mount (Body (Listing []))"

text \<open>
  \<open>toUpperCase\<close> on the texts of the examples: they hold no lower-case letter and stay
  as they are.
\<close>

definition example_toUpperCase :: "string \<Rightarrow> string" where
  "example_toUpperCase s = s"

text \<open>
  The modal opened for AAPL with the portfolio \<open>p1\<close>, and the letters \<open>abc\<close> typed into
  the shares field.
\<close>

definition example_modal :: AddHoldingModal where
  "example_modal =
    modal_run example_toUpperCase (modal_initial ''AAPL'' ''p1'') [SharesInput ''abc'']"

text \<open>The view with the portfolio \<open>p1\<close> selected and the modal opened by its button.\<close>

definition example_view :: PortfolioView where
  "example_view =
    pv_run example_toUpperCase pv_initial [PortfolioSelected (Some ''p1''), ModalOpened]"

definition example_context :: App where
  "example_context = App_initial Map.empty ''USD'' ''portfolio'' None"

text \<open>Every array of the store lies below the next free reference.\<close>

definition refs_in_use :: "Store \<Rightarrow> bool" where
  "refs_in_use store = (\<forall>r \<in> dom (stock_arrays store). r < next_ref store)"

section \<open>Properties of the period statistics\<close>

lemma pc_settle_stats:
  "1 < length h \<Longrightarrow> pc_stats (pc_settle req (Body h) st) = spec_stats (map price h)"
  by (cases h) (auto simp: pc_settle_def spec_stats_def Let_def last_conv_nth hd_map last_map)

lemma pp_settle_stats:
  "1 < length g \<Longrightarrow> pp_stats (pp_settle (Body g) sp) = spec_stats (map perf_price g)"
  by (cases g) (auto simp: pp_settle_def spec_stats_def Let_def last_conv_nth hd_map last_map)

lemma pc_resolve_newest:
  "pc_resolve (length (pc_pending st)) resp (pc_fetchHistory st) =
     pc_settle (pc_ticker st, pc_period st) resp
       (st\<lparr>pc_loading := True,
           pc_requests := pc_requests st @ [(pc_ticker st, pc_period st)]\<rparr>)"
  by (simp add: pc_resolve_def pc_fetchHistory_def nth_append)

lemma pp_resolve_newest:
  "pp_resolve (length (pp_pending sp)) resp (pp_fetchHistory sp) =
     pp_settle resp
       (sp\<lparr>pp_loading := True,
           pp_requests := pp_requests sp @ [(pp_portfolioId sp, pp_period sp)]\<rparr>)"
  by (simp add: pp_resolve_def pp_fetchHistory_def nth_append)

lemma percent_of_zero_base:
  "js_times (js_divide a (Num 0)) (Num 100) \<in> {PosInfinity, NegInfinity, NaN}"
  by (cases a) (auto simp: infinity_def)

lemma spec_stats_zero_base:
  "hd prices = Num 0 \<Longrightarrow> changePct (spec_stats prices) \<in> {PosInfinity, NegInfinity, NaN}"
  unfolding spec_stats_def using percent_of_zero_base by simp

text \<open>
  Claim C1. A fetched series with more than one element sets the statistics to the last
  price minus the first, and to that change over the first price times 100, in PriceChart
  and in PortfolioPerformance alike. Each change of the period or the ticker (PriceChart),
  and of the period or the portfolio (PortfolioPerformance, whose effect fetches for a
  non-empty portfolio id), issues one fetch, and the response to it recomputes the
  statistics. No branch looks at the first price: when it is 0 the percentage is
  \<open>Infinity\<close>, \<open>-Infinity\<close> or \<open>NaN\<close>.
\<close>

theorem period_stats_recomputed:
  assumes "1 < length h" and "1 < length g"
  shows "pc_stats (pc_settle req (Body h) st) = spec_stats (map price h)
    \<and> pp_stats (pp_settle (Body g) sp) = spec_stats (map perf_price g)
    \<and> (p \<noteq> pc_period st \<longrightarrow>
          pc_requests (pc_setPeriod p st) = pc_requests st @ [(pc_ticker st, p)]
        \<and> pc_stats (pc_resolve (length (pc_pending st)) (Body h) (pc_setPeriod p st))
            = spec_stats (map price h))
    \<and> (t \<noteq> pc_ticker st \<longrightarrow>
          pc_requests (pc_setTicker t st) = pc_requests st @ [(t, pc_period st)]
        \<and> pc_stats (pc_resolve (length (pc_pending st)) (Body h) (pc_setTicker t st))
            = spec_stats (map price h))
    \<and> (q \<noteq> pp_period sp \<and> pp_portfolioId sp \<noteq> [] \<longrightarrow>
          pp_requests (pp_setPeriod q sp) = pp_requests sp @ [(pp_portfolioId sp, q)]
        \<and> pp_stats (pp_resolve (length (pp_pending sp)) (Body g) (pp_setPeriod q sp))
            = spec_stats (map perf_price g))
    \<and> (i \<noteq> pp_portfolioId sp \<and> i \<noteq> [] \<longrightarrow>
          pp_requests (pp_setPortfolioId i sp) = pp_requests sp @ [(i, pp_period sp)]
        \<and> pp_stats (pp_resolve (length (pp_pending sp)) (Body g) (pp_setPortfolioId i sp))
            = spec_stats (map perf_price g))
    \<and> (price (hd h) = Num 0 \<longrightarrow>
          changePct (pc_stats (pc_settle req (Body h) st)) \<in> {PosInfinity, NegInfinity, NaN})
    \<and> (perf_price (hd g) = Num 0 \<longrightarrow>
          changePct (pp_stats (pp_settle (Body g) sp)) \<in> {PosInfinity, NegInfinity, NaN})"
proof -
  have h0: "h \<noteq> []" and g0: "g \<noteq> []"
    using assms by auto
  have a: "pc_stats (pc_settle req (Body h) st) = spec_stats (map price h)"
    by (rule pc_settle_stats [OF assms(1)])
  have b: "pp_stats (pp_settle (Body g) sp) = spec_stats (map perf_price g)"
    by (rule pp_settle_stats [OF assms(2)])
  have c: "pc_requests (pc_setPeriod p st) = pc_requests st @ [(pc_ticker st, p)]
      \<and> pc_stats (pc_resolve (length (pc_pending st)) (Body h) (pc_setPeriod p st))
          = spec_stats (map price h)" if "p \<noteq> pc_period st"
  proof -
    let ?s = "st\<lparr>pc_period := p\<rparr>"
    have "pc_setPeriod p st = pc_fetchHistory ?s"
      using that by (simp add: pc_setPeriod_def)
    moreover have "pc_requests (pc_fetchHistory ?s) = pc_requests st @ [(pc_ticker st, p)]"
      by (simp add: pc_fetchHistory_def)
    moreover have "pc_stats (pc_resolve (length (pc_pending ?s)) (Body h) (pc_fetchHistory ?s))
        = spec_stats (map price h)"
      by (simp only: pc_resolve_newest pc_settle_stats [OF assms(1)])
    ultimately show ?thesis by simp
  qed
  have d: "pc_requests (pc_setTicker t st) = pc_requests st @ [(t, pc_period st)]
      \<and> pc_stats (pc_resolve (length (pc_pending st)) (Body h) (pc_setTicker t st))
          = spec_stats (map price h)" if "t \<noteq> pc_ticker st"
  proof -
    let ?s = "st\<lparr>pc_ticker := t\<rparr>"
    have "pc_setTicker t st = pc_fetchHistory ?s"
      using that by (simp add: pc_setTicker_def)
    moreover have "pc_requests (pc_fetchHistory ?s) = pc_requests st @ [(t, pc_period st)]"
      by (simp add: pc_fetchHistory_def)
    moreover have "pc_stats (pc_resolve (length (pc_pending ?s)) (Body h) (pc_fetchHistory ?s))
        = spec_stats (map price h)"
      by (simp only: pc_resolve_newest pc_settle_stats [OF assms(1)])
    ultimately show ?thesis by simp
  qed
  have e: "pp_requests (pp_setPeriod q sp) = pp_requests sp @ [(pp_portfolioId sp, q)]
      \<and> pp_stats (pp_resolve (length (pp_pending sp)) (Body g) (pp_setPeriod q sp))
          = spec_stats (map perf_price g)" if "q \<noteq> pp_period sp" "pp_portfolioId sp \<noteq> []"
  proof -
    let ?s = "sp\<lparr>pp_period := q\<rparr>"
    have "pp_setPeriod q sp = pp_fetchHistory ?s"
      using that by (simp add: pp_setPeriod_def pp_effect_def)
    moreover have "pp_requests (pp_fetchHistory ?s) = pp_requests sp @ [(pp_portfolioId sp, q)]"
      by (simp add: pp_fetchHistory_def)
    moreover have "pp_stats (pp_resolve (length (pp_pending ?s)) (Body g) (pp_fetchHistory ?s))
        = spec_stats (map perf_price g)"
      by (simp only: pp_resolve_newest pp_settle_stats [OF assms(2)])
    ultimately show ?thesis by simp
  qed
  have f: "pp_requests (pp_setPortfolioId i sp) = pp_requests sp @ [(i, pp_period sp)]
      \<and> pp_stats (pp_resolve (length (pp_pending sp)) (Body g) (pp_setPortfolioId i sp))
          = spec_stats (map perf_price g)" if "i \<noteq> pp_portfolioId sp" "i \<noteq> []"
  proof -
    let ?s = "sp\<lparr>pp_portfolioId := i\<rparr>"
    have "pp_setPortfolioId i sp = pp_fetchHistory ?s"
      using that by (simp add: pp_setPortfolioId_def pp_effect_def)
    moreover have "pp_requests (pp_fetchHistory ?s) = pp_requests sp @ [(i, pp_period sp)]"
      by (simp add: pp_fetchHistory_def)
    moreover have "pp_stats (pp_resolve (length (pp_pending ?s)) (Body g) (pp_fetchHistory ?s))
        = spec_stats (map perf_price g)"
      by (simp only: pp_resolve_newest pp_settle_stats [OF assms(2)])
    ultimately show ?thesis by simp
  qed
  have z1: "changePct (pc_stats (pc_settle req (Body h) st)) \<in> {PosInfinity, NegInfinity, NaN}"
    if "price (hd h) = Num 0"
    unfolding a using that h0 by (intro spec_stats_zero_base) (simp add: hd_map)
  have z2: "changePct (pp_stats (pp_settle (Body g) sp)) \<in> {PosInfinity, NegInfinity, NaN}"
    if "perf_price (hd g) = Num 0"
    unfolding b using that g0 by (intro spec_stats_zero_base) (simp add: hd_map)
  from a b c d e f z1 z2 show ?thesis by blast
qed

theorem period_stats_recomputed_witness:
  "1 < length example_history \<and> 1 < length example_performance
   \<and> PERIODS ! 3 \<noteq> pc_period (pc_mount ''AAPL'' True)
   \<and> ''MSFT'' \<noteq> pc_ticker (pc_mount ''AAPL'' True)
   \<and> PERF_PERIODS ! 2 \<noteq> pp_period (pp_mount ''p1'' 0)
   \<and> pp_portfolioId (pp_mount ''p1'' 0) \<noteq> []
   \<and> ''p2'' \<noteq> pp_portfolioId (pp_mount ''p1'' 0) \<and> ''p2'' \<noteq> []
   \<and> price (hd example_history) = Num 0
   \<and> perf_price (hd example_performance) = Num 0
   \<and> pc_requests (pc_setPeriod (PERIODS ! 3) (pc_mount ''AAPL'' True))
        = [(''AAPL'', PERIODS ! 2), (''AAPL'', PERIODS ! 3)]
   \<and> pc_stats (pc_resolve 1 (Body example_history) (pc_setPeriod (PERIODS ! 3) (pc_mount ''AAPL'' True)))
        = \<lparr>change = Num 12, changePct = PosInfinity\<rparr>
   \<and> pc_stats (pc_resolve 1 (Body example_history) (pc_setTicker ''MSFT'' (pc_mount ''AAPL'' True)))
        = \<lparr>change = Num 12, changePct = PosInfinity\<rparr>
   \<and> pp_requests (pp_setPortfolioId ''p2'' (pp_mount ''p1'' 0))
        = [(''p1'', PERF_PERIODS ! 1), (''p2'', PERF_PERIODS ! 1)]
   \<and> pp_stats (pp_resolve 1 (Body example_performance) (pp_setPeriod (PERF_PERIODS ! 2) (pp_mount ''p1'' 0)))
        = \<lparr>change = Num 0, changePct = NaN\<rparr>"
proof -
  have len: "1 < length example_history" "1 < length example_performance"
    by (simp_all add: example_history_def example_performance_def)
  have pend: "length (pc_pending (pc_mount ''AAPL'' True)) = 1"
    "length (pp_pending (pp_mount ''p1'' 0)) = 1"
    by (simp_all add: pc_mount_def pc_fetchHistory_def pc_initial_def
        pp_mount_def pp_effect_def pp_fetchHistory_def pp_initial_def)
  have stats: "spec_stats (map price example_history) = \<lparr>change = Num 12, changePct = PosInfinity\<rparr>"
    "spec_stats (map perf_price example_performance) = \<lparr>change = Num 0, changePct = NaN\<rparr>"
    by (simp_all add: spec_stats_def example_history_def example_performance_def infinity_def)
  have hyps: "PERIODS ! 3 \<noteq> pc_period (pc_mount ''AAPL'' True)"
    "''MSFT'' \<noteq> pc_ticker (pc_mount ''AAPL'' True)"
    "PERF_PERIODS ! 2 \<noteq> pp_period (pp_mount ''p1'' 0)"
    "pp_portfolioId (pp_mount ''p1'' 0) \<noteq> []"
    "''p2'' \<noteq> pp_portfolioId (pp_mount ''p1'' 0)"
    "price (hd example_history) = Num 0"
    "perf_price (hd example_performance) = Num 0"
    by (simp_all add: pc_mount_def pc_fetchHistory_def pc_initial_def PERIODS_def
        pp_mount_def pp_effect_def pp_fetchHistory_def pp_initial_def PERF_PERIODS_def
        example_history_def example_performance_def)
  have reqs: "pc_requests (pc_mount ''AAPL'' True) = [(''AAPL'', PERIODS ! 2)]"
    "pc_ticker (pc_mount ''AAPL'' True) = ''AAPL''"
    "pp_requests (pp_mount ''p1'' 0) = [(''p1'', PERF_PERIODS ! 1)]"
    "pp_period (pp_mount ''p1'' 0) = PERF_PERIODS ! 1"
    by (simp_all add: pc_mount_def pc_fetchHistory_def pc_initial_def
        pp_mount_def pp_effect_def pp_fetchHistory_def pp_initial_def)
  show ?thesis
    using period_stats_recomputed [OF len, where p = "PERIODS ! 3"
        and st = "pc_mount ''AAPL'' True" and req = "(''AAPL'', PERIODS ! 2)"
        and sp = "pp_mount ''p1'' 0" and t = "''MSFT''" and q = "PERF_PERIODS ! 2"
        and i = "''p2''"]
      len hyps
    by (simp add: pend stats reqs)
qed

section \<open>Properties of the currency conversion\<close>

lemma round_half_even_error: "\<bar>of_int (round_half_even y) - y\<bar> \<le> 1 / 2"
proof -
  have "of_int \<lfloor>y\<rfloor> \<le> y" "y < of_int \<lfloor>y\<rfloor> + 1"
    by linarith+
  then show ?thesis
    by (auto simp: round_half_even_def Let_def)
qed

lemma exponent_bounds:
  assumes "x \<noteq> 0"
  shows "2 powr of_int \<lfloor>log 2 \<bar>x\<bar>\<rfloor> \<le> \<bar>x\<bar>"
proof -
  have "of_int \<lfloor>log 2 \<bar>x\<bar>\<rfloor> \<le> log 2 \<bar>x\<bar>"
    by (rule of_int_floor_le)
  then have "2 powr of_int \<lfloor>log 2 \<bar>x\<bar>\<rfloor> \<le> 2 powr log 2 \<bar>x\<bar>"
    by (simp add: powr_mono)
  also have "\<dots> = \<bar>x\<bar>"
    using assms by simp
  finally show ?thesis .
qed

lemma exponent_normal:
  assumes "1 / 2 ^ 1022 \<le> \<bar>x\<bar>"
  shows "- 1022 \<le> \<lfloor>log 2 \<bar>x\<bar>\<rfloor>"
proof -
  have "(0::real) < 1 / 2 ^ 1022"
    by simp
  with assms have pos: "0 < \<bar>x\<bar>"
    by linarith
  have "(2::real) powr (- 1022) = 1 / 2 ^ 1022"
    by (simp add: powr_minus powr_realpow [symmetric] divide_simps)
  with assms have "(2::real) powr (- 1022) \<le> \<bar>x\<bar>"
    by simp
  then have "- 1022 \<le> log 2 \<bar>x\<bar>"
    using pos by (simp add: le_log_iff)
  then show ?thesis
    by (simp add: le_floor_iff)
qed


lemma double_error:
  assumes low: "1 / 2 ^ 1022 \<le> \<bar>x\<bar>" and high: "\<bar>x\<bar> \<le> 2 ^ 1023"
  shows "\<exists>v. double (Num x) = Num v \<and> \<bar>v - x\<bar> \<le> \<bar>x\<bar> / 2 ^ 53"
proof -
  define e where "e = \<lfloor>log 2 \<bar>x\<bar>\<rfloor>"
  define ulp :: real where "ulp = 2 powr (of_int e - 52)"
  define v where "v = of_int (round_half_even (x / ulp)) * ulp"
  have "(0::real) < 1 / 2 ^ 1022"
    by simp
  with low have "0 < \<bar>x\<bar>"
    by linarith
  then have x0: "x \<noteq> 0"
    by simp
  have e_low: "max e (- 1022) = e"
    using exponent_normal [OF low] by (simp add: e_def)
  have ulp_pos: "0 < ulp"
    by (simp add: ulp_def)
  have "ulp = 2 powr of_int e / 2 ^ 52"
    by (simp add: ulp_def powr_diff powr_realpow [symmetric])
  also have "\<dots> \<le> \<bar>x\<bar> / 2 ^ 52"
    using exponent_bounds [OF x0] by (simp add: e_def divide_right_mono)
  finally have ulp_le: "ulp \<le> \<bar>x\<bar> / 2 ^ 52" .
  have "v - x = (of_int (round_half_even (x / ulp)) - x / ulp) * ulp"
    using ulp_pos by (simp add: v_def left_diff_distrib)
  then have "\<bar>v - x\<bar> = \<bar>of_int (round_half_even (x / ulp)) - x / ulp\<bar> * ulp"
    using ulp_pos by (simp add: abs_mult)
  also have "\<dots> \<le> (1 / 2) * ulp"
    using round_half_even_error [of "x / ulp"] ulp_pos by (intro mult_right_mono) simp_all
  also have "\<dots> \<le> \<bar>x\<bar> / 2 ^ 53"
    using ulp_le by simp
  finally have err: "\<bar>v - x\<bar> \<le> \<bar>x\<bar> / 2 ^ 53" .
  have "\<bar>v\<bar> \<le> \<bar>x\<bar> + \<bar>x\<bar> / 2 ^ 53"
    using err by linarith
  also have "\<dots> \<le> 2 ^ 1023 + 2 ^ 1023 / 2 ^ 53"
    using high by (intro add_mono divide_right_mono) simp_all
  also have "\<dots> < (2::real) ^ 1024"
    by simp
  finally have finite: "\<not> 2 ^ 1024 \<le> \<bar>v\<bar>"
    by simp
  have "double (Num x) = Num v"
    using x0 finite e_low
    by (simp add: double_def Let_def e_def [symmetric] ulp_def [symmetric] v_def [symmetric])
  with err show ?thesis by blast
qed

lemma round_half_even_int: "round_half_even (of_int m) = m"
  by (simp add: round_half_even_def)

lemma round_trip_error:
  assumes rate: "exchangeRate st = Num r"
    and a_low: "1 / 2 ^ 1021 \<le> \<bar>a\<bar>" and a_high: "\<bar>a\<bar> \<le> 2 ^ 1022"
    and p_low: "1 / 2 ^ 1022 \<le> \<bar>a * r\<bar>" and p_high: "\<bar>a * r\<bar> \<le> 2 ^ 1023"
  shows "(\<exists>e. convert (setCurrency ''EUR'' st) (Num a) ''USD'' = Num e
            \<and> \<bar>e - a * r\<bar> \<le> \<bar>a * r\<bar> / 2 ^ 53)
       \<and> (\<exists>b. convert (setCurrency ''USD'' st)
              (convert (setCurrency ''EUR'' st) (Num a) ''USD'') ''EUR'' = Num b
            \<and> \<bar>b - a\<bar> \<le> \<bar>a\<bar> / 2 ^ 51)"
proof -
  have "(0::real) < 1 / 2 ^ 1022"
    by simp
  with p_low have "0 < \<bar>a * r\<bar>"
    by linarith
  then have a0: "a \<noteq> 0" and r0: "r \<noteq> 0"
    by simp_all
  obtain e where e: "double (Num (a * r)) = Num e" "\<bar>e - a * r\<bar> \<le> \<bar>a * r\<bar> / 2 ^ 53"
    using double_error [OF p_low p_high] by blast
  have there: "convert (setCurrency ''EUR'' st) (Num a) ''USD'' = Num e"
    using a0 rate e(1) by (simp add: convert_def setCurrency_def truthy_def)
  define q where "q = e / r"
  have "q - a = (e - a * r) / r"
    using r0 by (simp add: q_def diff_divide_distrib)
  then have "\<bar>q - a\<bar> = \<bar>e - a * r\<bar> / \<bar>r\<bar>"
    by simp
  also have "\<dots> \<le> (\<bar>a * r\<bar> / 2 ^ 53) / \<bar>r\<bar>"
    using e(2) by (intro divide_right_mono) simp_all
  also have "\<dots> = \<bar>a\<bar> / 2 ^ 53"
    using r0 by (simp add: abs_mult)
  finally have q_err: "\<bar>q - a\<bar> \<le> \<bar>a\<bar> / 2 ^ 53" .
  have small: "\<bar>a\<bar> / 2 ^ 53 \<le> \<bar>a\<bar> / 2"
    by (intro divide_left_mono) simp_all
  have q_low: "1 / 2 ^ 1022 \<le> \<bar>q\<bar>"
  proof -
    have "1 / 2 ^ 1022 = (1 / 2 ^ 1021) / (2::real)"
      by simp
    also have "\<dots> \<le> \<bar>a\<bar> / 2"
      using a_low by (intro divide_right_mono) simp_all
    also have "\<dots> \<le> \<bar>q\<bar>"
      using q_err small by linarith
    finally show ?thesis .
  qed
  have q_high: "\<bar>q\<bar> \<le> 2 ^ 1023"
  proof -
    have "\<bar>q\<bar> \<le> 2 * \<bar>a\<bar>"
      using q_err small by linarith
    also have "\<dots> \<le> 2 * 2 ^ 1022"
      using a_high by simp
    finally show ?thesis by simp
  qed
  obtain b where b: "double (Num q) = Num b" "\<bar>b - q\<bar> \<le> \<bar>q\<bar> / 2 ^ 53"
    using double_error [OF q_low q_high] by blast
  have e0: "e \<noteq> 0"
    using q_low by (auto simp: q_def)
  have returned: "convert (setCurrency ''USD'' st) (Num e) ''EUR'' = Num b"
    using e0 r0 rate b(1) by (simp add: convert_def setCurrency_def truthy_def q_def)
  have "\<bar>q\<bar> \<le> 2 * \<bar>a\<bar>"
    using q_err small by linarith
  then have "\<bar>q\<bar> / 2 ^ 53 \<le> (2 * \<bar>a\<bar>) / 2 ^ 53"
    by (simp add: divide_right_mono)
  with b(2) have "\<bar>b - q\<bar> \<le> (2 * \<bar>a\<bar>) / 2 ^ 53"
    by linarith
  with q_err have "\<bar>b - a\<bar> \<le> (2 * \<bar>a\<bar>) / 2 ^ 53 + \<bar>a\<bar> / 2 ^ 53"
    by linarith
  also have "\<dots> \<le> \<bar>a\<bar> / 2 ^ 51"
    by simp
  finally have total: "\<bar>b - a\<bar> \<le> \<bar>a\<bar> / 2 ^ 51" .
  from there e(2) returned total show ?thesis
    by auto
qed

lemma double_not_finite:
  "double PosInfinity = PosInfinity" "double NegInfinity = NegInfinity" "double NaN = NaN"
  by (simp_all add: double_def)

lemma infinite_rate_round_trip:
  assumes "exchangeRate st = PosInfinity \<or> exchangeRate st = NegInfinity" and "c \<noteq> 0"
  shows "convert (setCurrency ''USD'' st)
      (convert (setCurrency ''EUR'' st) (Num c) ''USD'') ''EUR'' = NaN"
proof -
  have "convert (setCurrency ''EUR'' st) (Num c) ''USD'' \<in> {PosInfinity, NegInfinity}"
    using assms
    by (cases "0 < c")
      (auto simp: convert_def setCurrency_def truthy_def infinity_def double_not_finite)
  moreover have "convert (setCurrency ''USD'' st) PosInfinity ''EUR'' = NaN"
    "convert (setCurrency ''USD'' st) NegInfinity ''EUR'' = NaN"
    using assms(1)
    by (auto simp: convert_def setCurrency_def truthy_def double_not_finite)
  ultimately show ?thesis
    by auto
qed

lemma convert_same_currency:
  "currency st = from \<Longrightarrow> amount \<noteq> NaN \<Longrightarrow> convert st amount from = amount"
  by (auto simp: convert_def truthy_def)

lemma convert_falsy: "convert st NaN from = Num 0" "convert st (Num 0) from = Num 0"
  by (simp_all add: convert_def truthy_def)

lemma double_overflows:
  assumes e: "\<lfloor>log 2 \<bar>x\<bar>\<rfloor> = e" "- 1022 \<le> e"
    and x0: "x \<noteq> 0"
    and n: "round_half_even (x / 2 powr (of_int e - 52)) = n"
    and inf: "2 ^ 1024 \<le> \<bar>of_int n * (2::real) powr (of_int e - 52)\<bar>"
  shows "double (Num x) = infinity (0 < x)"
proof -
  have "max \<lfloor>log 2 \<bar>x\<bar>\<rfloor> (- 1022) = e"
    using e by simp
  then show ?thesis
    using x0 inf n by (simp add: double_def Let_def)
qed

lemma largest_power_doubled: "double (Num (2 ^ 1023 * 2)) = PosInfinity"
proof -
  let ?x = "2 ^ 1023 * 2 :: real"
  have x: "?x = 2 ^ 1024"
    by simp
  have p: "(2::real) powr (of_int 1024 - 52) = 2 ^ 972"
    by (simp add: powr_realpow [symmetric])
  have e: "\<lfloor>log 2 \<bar>?x\<bar>\<rfloor> = 1024"
    unfolding x by (subst floor_log_eq_powr_iff) (simp_all add: powr_realpow [symmetric])
  have "?x / 2 powr (of_int 1024 - 52) = of_int (2 ^ 52)"
    unfolding p x by (simp add: power_diff [symmetric])
  then have n: "round_half_even (?x / 2 powr (of_int 1024 - 52)) = 2 ^ 52"
    by (simp only: round_half_even_int)
  have "double (Num ?x) = infinity (0 < ?x)"
    by (rule double_overflows [OF e _ _ n]) (simp_all add: p)
  then show ?thesis
    by (simp add: infinity_def)
qed


lemma double_rounds:
  assumes e: "\<lfloor>log 2 \<bar>x\<bar>\<rfloor> = e" "- 1022 \<le> e"
    and x0: "x \<noteq> 0"
    and n: "round_half_even (x / 2 powr (of_int e - 52)) = n"
    and fin: "\<bar>of_int n * (2::real) powr (of_int e - 52)\<bar> < 2 ^ 1024"
  shows "double (Num x) = Num (of_int n * 2 powr (of_int e - 52))"
proof -
  have "max \<lfloor>log 2 \<bar>x\<bar>\<rfloor> (- 1022) = e"
    using e by simp
  then show ?thesis
    using x0 fin n by (simp add: double_def Let_def)
qed

lemma unit_in_last_place:
  "(2::real) powr (of_int 0 - 52) = 1 / 2 ^ 52" "(2::real) powr (- 52) = 1 / 2 ^ 52"
  by (simp_all add: powr_minus powr_realpow [symmetric] divide_simps)

lemma product_rounded:
  "double (Num (4953959590107546 / 2 ^ 52 * (8286623314361713 / 2 ^ 53)))
     = Num (4557642822898943 / 2 ^ 52)"
proof -
  let ?x = "4953959590107546 / 2 ^ 52 * (8286623314361713 / 2 ^ 53) :: real"
  have e: "\<lfloor>log 2 \<bar>?x\<bar>\<rfloor> = 0"
    by (subst floor_log_eq_powr_iff) simp_all
  have n: "round_half_even (?x / 2 powr (of_int 0 - 52)) = 4557642822898943"
    unfolding unit_in_last_place by (simp add: round_half_even_def Let_def)
  have "double (Num ?x) = Num (of_int 4557642822898943 * 2 powr (of_int 0 - 52))"
    by (rule double_rounds [OF e _ _ n]) (simp_all add: unit_in_last_place)
  then show ?thesis
    by (simp add: unit_in_last_place)
qed

lemma quotient_rounded:
  "double (Num (4557642822898943 / 2 ^ 52 / (8286623314361713 / 2 ^ 53)))
     = Num (4953959590107547 / 2 ^ 52)"
proof -
  let ?x = "4557642822898943 / 2 ^ 52 / (8286623314361713 / 2 ^ 53) :: real"
  have e: "\<lfloor>log 2 \<bar>?x\<bar>\<rfloor> = 0"
    by (subst floor_log_eq_powr_iff) simp_all
  have n: "round_half_even (?x / 2 powr (of_int 0 - 52)) = 4953959590107547"
    unfolding unit_in_last_place by (simp add: round_half_even_def Let_def)
  have "double (Num ?x) = Num (of_int 4953959590107547 * 2 powr (of_int 0 - 52))"
    by (rule double_rounds [OF e _ _ n]) (simp_all add: unit_in_last_place)
  then show ?thesis
    by (simp add: unit_in_last_place)
qed

lemma example_rate_run_fields:
  "exchangeRate example_rate_run = Num (8286623314361713 / 2 ^ 53)"
  "currency example_rate_run = ''USD''"
  by (simp_all add: example_rate_run_def App_mount_def App_initial_def initial_rate_def
      renders_example_def Let_def analysis_effect_def activeTab_effect_def
      currency_effect_def setItem_def)

text \<open>
  Claim C2 as stated: for every amount, converting with the stored rate from USD to EUR and
  back returns the amount within floating-point tolerance. \<open>fetchRate\<close> stores every
  truthy rate. When the backend's rate parses to \<open>Infinity\<close>, 100 converts to \<open>Infinity\<close>
  and back to \<open>NaN\<close>. With the rate 2, the amount \<open>2 ^ 1023\<close> converts to \<open>Infinity\<close>,
  since the product exceeds the largest number, and back to \<open>Infinity\<close>.
\<close>

theorem round_trip_counterexample:
  "exchangeRate infinite_rate_run = PosInfinity
   \<and> convert (setCurrency ''EUR'' infinite_rate_run) (Num 100) ''USD'' = PosInfinity
   \<and> convert (setCurrency ''USD'' infinite_rate_run)
        (convert (setCurrency ''EUR'' infinite_rate_run) (Num 100) ''USD'') ''EUR'' = NaN
   \<and> exchangeRate doubling_rate_run = Num 2
   \<and> convert (setCurrency ''EUR'' doubling_rate_run) (Num (2 ^ 1023)) ''USD'' = PosInfinity
   \<and> convert (setCurrency ''USD'' doubling_rate_run)
        (convert (setCurrency ''EUR'' doubling_rate_run) (Num (2 ^ 1023)) ''USD'') ''EUR''
       = PosInfinity"
proof -
  have rate: "exchangeRate infinite_rate_run = PosInfinity"
    by (simp add: infinite_rate_run_def app_run_def app_step_def App_mount_def App_initial_def
        initial_rate_def renders_example_def Let_def analysis_effect_def activeTab_effect_def
        currency_effect_def setItem_def fetchRate_def truthy_def rerender_def run_effects_def)
  have there: "convert (setCurrency ''EUR'' infinite_rate_run) (Num 100) ''USD'' = PosInfinity"
    by (simp add: convert_def setCurrency_def truthy_def rate infinity_def double_not_finite)
  have returned: "convert (setCurrency ''USD'' infinite_rate_run) PosInfinity ''EUR'' = NaN"
    by (simp add: convert_def setCurrency_def truthy_def rate double_not_finite)
  have rate2: "exchangeRate doubling_rate_run = Num 2"
    by (simp add: doubling_rate_run_def app_run_def app_step_def App_mount_def App_initial_def
        initial_rate_def renders_example_def Let_def analysis_effect_def activeTab_effect_def
        currency_effect_def setItem_def fetchRate_def truthy_def rerender_def run_effects_def)
  have there2: "convert (setCurrency ''EUR'' doubling_rate_run) (Num (2 ^ 1023)) ''USD''
      = PosInfinity"
    using largest_power_doubled by (simp add: convert_def setCurrency_def truthy_def rate2)
  have returned2: "convert (setCurrency ''USD'' doubling_rate_run) PosInfinity ''EUR''
      = PosInfinity"
    by (simp add: convert_def setCurrency_def truthy_def rate2 infinity_def double_not_finite)
  from rate there returned rate2 there2 returned2 show ?thesis
    by simp
qed

text \<open>
  Claim C2, amended. With a finite stored rate, an amount whose magnitude lies between
  \<open>2 ^ -1021\<close> and \<open>2 ^ 1022\<close>, and a product of amount and rate whose magnitude lies
  between \<open>2 ^ -1022\<close> and \<open>2 ^ 1023\<close>, converting from USD to EUR yields the product
  rounded once, within the relative error \<open>2 ^ -53\<close>, and converting that back yields a
  number within the relative error \<open>2 ^ -51\<close> of the amount. With an infinite stored rate
  the round trip of every finite amount other than 0 yields \<open>NaN\<close>. When the active
  currency equals the source currency, \<open>convert\<close> returns every amount but \<open>NaN\<close> as it
  is; for \<open>NaN\<close> it returns 0.
\<close>

theorem convert_round_trip_within_tolerance:
  assumes rate: "exchangeRate st = Num r"
    and a_low: "1 / 2 ^ 1021 \<le> \<bar>a\<bar>" and a_high: "\<bar>a\<bar> \<le> 2 ^ 1022"
    and p_low: "1 / 2 ^ 1022 \<le> \<bar>a * r\<bar>" and p_high: "\<bar>a * r\<bar> \<le> 2 ^ 1023"
  shows "(\<exists>e. convert (setCurrency ''EUR'' st) (Num a) ''USD'' = Num e
            \<and> \<bar>e - a * r\<bar> \<le> \<bar>a * r\<bar> / 2 ^ 53)
       \<and> (\<exists>b. convert (setCurrency ''USD'' st)
              (convert (setCurrency ''EUR'' st) (Num a) ''USD'') ''EUR'' = Num b
            \<and> \<bar>b - a\<bar> \<le> \<bar>a\<bar> / 2 ^ 51)
       \<and> ((exchangeRate sr = PosInfinity \<or> exchangeRate sr = NegInfinity) \<and> c \<noteq> 0
            \<longrightarrow> convert (setCurrency ''USD'' sr)
                  (convert (setCurrency ''EUR'' sr) (Num c) ''USD'') ''EUR'' = NaN)
       \<and> (currency sc = from \<and> amount \<noteq> NaN \<longrightarrow> convert sc amount from = amount)
       \<and> convert sc NaN from = Num 0"
  using round_trip_error [OF assms] infinite_rate_round_trip [of sr c]
    convert_same_currency [of sc "from" amount] convert_falsy(1) [of sc "from"]
  by (intro conjI impI) (simp_all only:, blast+)

theorem convert_round_trip_within_tolerance_witness:
  "exchangeRate example_rate_run = Num (8286623314361713 / 2 ^ 53)
   \<and> 1 / 2 ^ 1021 \<le> \<bar>example_amount\<bar> \<and> \<bar>example_amount\<bar> \<le> 2 ^ 1022
   \<and> 1 / 2 ^ 1022 \<le> \<bar>example_amount * (8286623314361713 / 2 ^ 53)\<bar>
   \<and> \<bar>example_amount * (8286623314361713 / 2 ^ 53)\<bar> \<le> 2 ^ 1023
   \<and> currency example_rate_run = ''USD''
   \<and> convert (setCurrency ''EUR'' example_rate_run) (Num example_amount) ''USD''
       = Num (4557642822898943 / 2 ^ 52)
   \<and> convert (setCurrency ''USD'' example_rate_run)
        (convert (setCurrency ''EUR'' example_rate_run) (Num example_amount) ''USD'') ''EUR''
       = Num (4953959590107547 / 2 ^ 52)
   \<and> \<bar>4953959590107547 / 2 ^ 52 - example_amount\<bar> \<le> \<bar>example_amount\<bar> / 2 ^ 51
   \<and> convert example_rate_run (Num example_amount) ''USD'' = Num example_amount
   \<and> exchangeRate infinite_rate_run = PosInfinity
   \<and> convert (setCurrency ''USD'' infinite_rate_run)
        (convert (setCurrency ''EUR'' infinite_rate_run) (Num 100) ''USD'') ''EUR'' = NaN"
proof -
  note rate = example_rate_run_fields(1) and cur = example_rate_run_fields(2)
  have inf: "exchangeRate infinite_rate_run = PosInfinity"
    by (simp add: infinite_rate_run_def app_run_def app_step_def App_mount_def App_initial_def
        initial_rate_def renders_example_def Let_def analysis_effect_def activeTab_effect_def
        currency_effect_def setItem_def fetchRate_def truthy_def rerender_def run_effects_def)
  have h1: "1 / 2 ^ 1021 \<le> \<bar>example_amount\<bar>" and h2: "\<bar>example_amount\<bar> \<le> 2 ^ 1022"
    and h3: "1 / 2 ^ 1022 \<le> \<bar>example_amount * (8286623314361713 / 2 ^ 53)\<bar>"
    and h4: "\<bar>example_amount * (8286623314361713 / 2 ^ 53)\<bar> \<le> 2 ^ 1023"
    by (simp_all add: example_amount_def)
  note main = convert_round_trip_within_tolerance [OF rate h1 h2 h3 h4,
      where sr = infinite_rate_run and c = 100 and sc = example_rate_run
        and amount = "Num example_amount" and ?from = "''USD''"]
  have there: "convert (setCurrency ''EUR'' example_rate_run) (Num example_amount) ''USD''
      = Num (4557642822898943 / 2 ^ 52)"
    using product_rounded by (simp add: convert_def setCurrency_def truthy_def rate example_amount_def)
  have returned: "convert (setCurrency ''USD'' example_rate_run)
      (convert (setCurrency ''EUR'' example_rate_run) (Num example_amount) ''USD'') ''EUR''
      = Num (4953959590107547 / 2 ^ 52)"
    unfolding there using quotient_rounded by (simp add: convert_def setCurrency_def truthy_def rate)
  from main obtain b where b: "convert (setCurrency ''USD'' example_rate_run)
      (convert (setCurrency ''EUR'' example_rate_run) (Num example_amount) ''USD'') ''EUR'' = Num b"
    and near: "\<bar>b - example_amount\<bar> \<le> \<bar>example_amount\<bar> / 2 ^ 51"
    by blast
  from b returned have "b = 4953959590107547 / 2 ^ 52"
    by (metis number.inject)
  with near have close: "\<bar>4953959590107547 / 2 ^ 52 - example_amount\<bar> \<le> \<bar>example_amount\<bar> / 2 ^ 51"
    by (simp only:)
  have same: "convert example_rate_run (Num example_amount) ''USD'' = Num example_amount"
    using main cur by blast
  have lost: "convert (setCurrency ''USD'' infinite_rate_run)
      (convert (setCurrency ''EUR'' infinite_rate_run) (Num 100) ''USD'') ''EUR'' = NaN"
    using main inf by simp
  from rate h1 h2 h3 h4 cur there returned close same inf lost show ?thesis
    by (intro conjI)
qed


section \<open>Properties of the persisted state\<close>




























section \<open>The message for a failed analyze request\<close>

text \<open>
  Claim C8 at a response that is not ok and whose body is not JSON (status 500, an HTML
  page). The one parse attempt reads the body and fails; the fallback then reads the body
  a second time before it builds the message from the status line, that read is rejected,
  and the message shown is the platform's for the rejected read, not
  \<open>Server Error: 500 Internal Server Error\<close>.
\<close>

theorem non_json_error_body_message:
  "error (handleSearch_settle (Body example_error_response) st)
     = Some (EngineText TypeError_body_already_read)
   \<and> error (handleSearch_settle (Body example_error_response) st)
     \<noteq> Some (Text ''Server Error: 500 Internal Server Error'')"
  by (simp add: handleSearch_settle_def analyze_result_def example_error_response_def
      error_of_response_def response_json_def consume_body_def error_fallback_def
      response_text_def)

section \<open>Overlapping history requests\<close>

text \<open>
  Claim C9 as stated: of two overlapping history fetches, the series displayed at the end
  is the one for the period selected last. In \<open>rapid_switch\<close> the user selects 1Y and then
  5D, the 5D response arrives first and the 1Y response second: the chart ends with 5D
  selected, nothing pending, and the 1Y series on display.
\<close>

theorem stale_response_counterexample:
  "pc_pending (pc_run (pc_mount ''AAPL'' False) (take 3 rapid_switch))
     = [(''AAPL'', PERIODS ! 3), (''AAPL'', PERIODS ! 1)]
   \<and> pc_period (pc_run (pc_mount ''AAPL'' False) rapid_switch) = PERIODS ! 1
   \<and> pc_pending (pc_run (pc_mount ''AAPL'' False) rapid_switch) = []
   \<and> pc_data (pc_run (pc_mount ''AAPL'' False) rapid_switch) = series_1y
   \<and> pc_data (pc_run (pc_mount ''AAPL'' False) rapid_switch) \<noteq> series_5d"
  by (simp add: rapid_switch_def pc_run_def pc_mount_def pc_initial_def pc_fetchHistory_def
      pc_resolve_def pc_settle_def pc_setPeriod_def PERIODS_def Let_def
      series_1mo_def series_1y_def series_5d_def)

text \<open>
  Claim C9, amended. Selecting a different period issues exactly one history fetch, for
  that period, and every response that arrives replaces the displayed series and issues
  no fetch, whichever period is selected by then: the series displayed at the end is the
  one of the response that arrived last.
\<close>

theorem last_arrived_response_displayed:
  "(p \<noteq> pc_period st \<longrightarrow>
      pc_requests (pc_setPeriod p st) = pc_requests st @ [(pc_ticker st, p)]
    \<and> pc_period (pc_setPeriod p st) = p)
   \<and> (i < length (pc_pending sr) \<longrightarrow>
      pc_data (pc_resolve i (Body d) sr) = d
    \<and> pc_period (pc_resolve i (Body d) sr) = pc_period sr
    \<and> pc_requests (pc_resolve i (Body d) sr) = pc_requests sr)"
  by (simp add: pc_setPeriod_def pc_fetchHistory_def pc_resolve_def pc_settle_def Let_def)

theorem last_arrived_response_displayed_witness:
  "PERIODS ! 1 \<noteq> pc_period (pc_run (pc_mount ''AAPL'' False) (take 2 rapid_switch))
   \<and> 0 < length (pc_pending (pc_run (pc_mount ''AAPL'' False) (take 4 rapid_switch)))
   \<and> pc_requests (pc_setPeriod (PERIODS ! 1) (pc_run (pc_mount ''AAPL'' False) (take 2 rapid_switch)))
       = [(''AAPL'', PERIODS ! 2), (''AAPL'', PERIODS ! 3), (''AAPL'', PERIODS ! 1)]
   \<and> pc_data (pc_resolve 0 (Body series_1y) (pc_run (pc_mount ''AAPL'' False) (take 4 rapid_switch)))
       = series_1y
   \<and> pc_period (pc_resolve 0 (Body series_1y) (pc_run (pc_mount ''AAPL'' False) (take 4 rapid_switch)))
       = PERIODS ! 1"
proof -
  let ?s2 = "pc_run (pc_mount ''AAPL'' False) (take 2 rapid_switch)"
  let ?s4 = "pc_run (pc_mount ''AAPL'' False) (take 4 rapid_switch)"
  have s2: "pc_period ?s2 = PERIODS ! 3" "pc_ticker ?s2 = ''AAPL''"
    "pc_requests ?s2 = [(''AAPL'', PERIODS ! 2), (''AAPL'', PERIODS ! 3)]"
    by (simp_all add: rapid_switch_def pc_run_def pc_mount_def pc_initial_def pc_fetchHistory_def
        pc_resolve_def pc_settle_def pc_setPeriod_def PERIODS_def Let_def series_1mo_def)
  have s4: "pc_pending ?s4 = [(''AAPL'', PERIODS ! 3)]" "pc_period ?s4 = PERIODS ! 1"
    by (simp_all add: rapid_switch_def pc_run_def pc_mount_def pc_initial_def pc_fetchHistory_def
        pc_resolve_def pc_settle_def pc_setPeriod_def PERIODS_def Let_def series_1mo_def
        series_5d_def)
  have ne: "PERIODS ! 1 \<noteq> PERIODS ! 3"
    by (simp add: PERIODS_def)
  show ?thesis
    using last_arrived_response_displayed [where p = "PERIODS ! 1" and st = ?s2 and i = 0 and sr = ?s4 and d = series_1y] ne
    by (simp add: s2 s4)
qed

section \<open>Properties of the ETF selection\<close>

lemma bounded_initial: "selection_bounded dp_initial"
  by (simp add: selection_bounded_def dp_initial_def)

lemma filter_bounded: "length xs \<le> n \<Longrightarrow> length (filter P xs) \<le> n"
  using length_filter_le [of P xs] by linarith

lemma bounded_click: "selection_bounded st \<Longrightarrow> selection_bounded (etf_click etf st)"
  by (auto simp: selection_bounded_def etf_click_def Let_def filter_bounded)

lemma bounded_start: "selection_bounded st \<Longrightarrow> selection_bounded (addSearchedEtf_start res st)"
  by (auto simp: selection_bounded_def addSearchedEtf_start_def)

lemma set_remove_nth: "set (take i xs @ drop (Suc i) xs) \<subseteq> set xs"
  by (auto dest: in_set_takeD in_set_dropD)

lemma bounded_settle:
  assumes "selection_bounded st"
  shows "selection_bounded (addSearchedEtf_settle i resp st)"
proof (cases "i < length (pending_adds st)")
  case False
  with assms show ?thesis by (simp add: addSearchedEtf_settle_def)
next
  case True
  obtain captured res where c: "pending_adds st ! i = (captured, res)"
    by (cases "pending_adds st ! i")
  from True have "pending_adds st ! i \<in> set (pending_adds st)" by simp
  with assms c have len: "length captured \<le> 3"
    by (auto simp: selection_bounded_def)
  have rest: "\<forall>c \<in> set (take i (pending_adds st) @ drop (Suc i) (pending_adds st)). length (fst c) \<le> 3"
    using assms set_remove_nth [of i "pending_adds st"] by (auto simp: selection_bounded_def)
  show ?thesis
    using True c len rest assms
    by (auto simp: addSearchedEtf_settle_def selection_bounded_def Let_def
        split: response.splits option.splits)
qed

lemma bounded_step: "selection_bounded st \<Longrightarrow> selection_bounded (dp_step st ev)"
proof (cases ev)
  case (ClickEtf etf)
  assume "selection_bounded st"
  then show ?thesis unfolding ClickEtf by (simp add: bounded_click)
next
  case (AddSearched res)
  assume "selection_bounded st"
  then show ?thesis unfolding AddSearched by (simp add: bounded_start)
next
  case (ClickResult res)
  assume "selection_bounded st"
  then show ?thesis unfolding ClickResult
    by (auto simp: search_result_click_def Let_def selection_bounded_def
        addSearchedEtf_start_def)
next
  case (AddSettled i resp)
  assume "selection_bounded st"
  then show ?thesis unfolding AddSettled by (simp add: bounded_settle)
qed (auto simp: selection_bounded_def clear_selection_def toggle_compare_def dp_handleSearch_def
      dp_search_settled_def Let_def split: response.splits)

lemma bounded_run: "selection_bounded st \<Longrightarrow> selection_bounded (dp_run st evs)"
  unfolding dp_run_def by (induction evs arbitrary: st) (simp_all add: bounded_step)

lemma selection_at_most_three: "length (selectedEtfs (dp_run dp_initial evs)) \<le> 3"
  using bounded_run [OF bounded_initial, of evs] by (simp add: selection_bounded_def)

lemma full_selection_click:
  "length (selectedEtfs st) = 3 \<Longrightarrow>
    \<not> (\<exists>s \<in> set (selectedEtfs st). etf_ticker s = etf_ticker etf) \<Longrightarrow>
    selectedEtfs (etf_click etf st) = selectedEtfs st"
  by (simp add: etf_click_def)

lemma settle_full:
  "i < length (pending_adds st) \<Longrightarrow> length (fst (pending_adds st ! i)) = 3 \<Longrightarrow>
     selectedEtfs (addSearchedEtf_settle i resp st) = selectedEtfs st"
  by (cases "pending_adds st ! i")
    (auto simp: addSearchedEtf_settle_def Let_def split: response.splits option.splits)

lemma settle_captured:
  "i < length (pending_adds st) \<Longrightarrow> length (fst (pending_adds st ! i)) < 3 \<Longrightarrow>
     \<exists>new. selectedEtfs (addSearchedEtf_settle i resp st) = fst (pending_adds st ! i) @ [new]"
  by (cases "pending_adds st ! i")
    (auto simp: addSearchedEtf_settle_def Let_def split: response.splits option.splits)

text \<open>
  Claim C3 at a search result added while the selection fills up. The selection never
  holds more than 3 entries, and a click on a fourth card changes nothing
  (\<open>selection_at_most_three\<close>, \<open>full_selection_click\<close>). But \<open>addSearchedEtf\<close> tests and
  extends the selection its closure captured when the result was clicked, not the
  selection at the time its response arrives. With VOO and QQQ selected, ARKK is clicked
  in the search results; before the response arrives the card VTI is selected, which
  fills the selection. The response then makes the attempt a fourth one, and instead of
  leaving the selection of VOO, QQQ and VTI as it is, it replaces it by VOO, QQQ and
  ARKK.
\<close>

theorem stale_selection_overwritten:
  "selectedEtfs add_pending = [etf_named ''VOO'', etf_named ''QQQ'', etf_named ''VTI'']
   \<and> pending_adds add_pending = [([etf_named ''VOO'', etf_named ''QQQ''], searched_etf)]
   \<and> selectedEtfs (dp_step add_pending (AddSettled 0 (Body (Some searched_analysis))))
       = [etf_named ''VOO'', etf_named ''QQQ'',
          \<lparr>etf_ticker = ''ARKK'', etf_name = ''ARK Innovation'', etf_ter = Num 0.75,
           etf_change = Num 0, etf_category = Some ''Diverse''\<rparr>]
   \<and> selectedEtfs (dp_step add_pending (AddSettled 0 (Body (Some searched_analysis))))
       \<noteq> selectedEtfs add_pending"
proof -
  have before: "selectedEtfs add_pending = [etf_named ''VOO'', etf_named ''QQQ'', etf_named ''VTI'']"
    "pending_adds add_pending = [([etf_named ''VOO'', etf_named ''QQQ''], searched_etf)]"
    by (simp_all add: add_pending_def dp_run_def dp_initial_def etf_click_def etf_named_def
        search_result_click_def addSearchedEtf_start_def searched_etf_def Let_def)
  have after: "selectedEtfs (dp_step add_pending (AddSettled 0 (Body (Some searched_analysis))))
       = [etf_named ''VOO'', etf_named ''QQQ'',
          \<lparr>etf_ticker = ''ARKK'', etf_name = ''ARK Innovation'', etf_ter = Num 0.75,
           etf_change = Num 0, etf_category = Some ''Diverse''\<rparr>]"
    by (simp add: addSearchedEtf_settle_def before Let_def searched_analysis_def searched_etf_def
        number_or_def string_or_def truthy_def)
  have "etf_named ''VTI'' \<noteq> \<lparr>etf_ticker = ''ARKK'', etf_name = ''ARK Innovation'',
      etf_ter = Num 0.75, etf_change = Num 0, etf_category = Some ''Diverse''\<rparr>"
    by (simp add: etf_named_def)
  with before after show ?thesis
    by simp
qed

section \<open>Suggestion and search requests for short inputs\<close>

text \<open>
  Claim C4 as stated: no request for an input whose trimmed length is below 2. Emptying
  the search bar (trimmed length 0) issues the request for the default suggestions, and
  the ETF search of the discovery panel, which tests the length of the input as typed,
  issues a search request for two spaces.
\<close>

theorem short_query_request_counterexample:
  "length (trim []) < 2
   \<and> sb_requests (sb_setQuery ''a'' sb_mount) = [None, None]
   \<and> sb_requests (sb_setQuery [] (sb_setQuery ''a'' sb_mount)) = [None, None, None]
   \<and> length (trim ''  '') < 2
   \<and> dp_requests (dp_handleSearch ''  '' dp_initial) = [SearchRequest ''  '']"
  by (simp add: trim_def whitespace_def sb_setQuery_def sb_mount_def query_effect_def Let_def
      dp_handleSearch_def dp_initial_def)

text \<open>
  Claim C4, amended. A search-bar input whose trimmed length is 1 issues no request and
  schedules none; one whose trimmed length is 0 issues exactly the request for the default
  suggestions (without a query) when it differs from the previous input, and schedules
  none. The ETF search handler of the discovery panel issues no request for an input
  shorter than 2 characters as typed.
\<close>

theorem short_query_requests:
  "(length (trim q) = 1 \<longrightarrow>
      sb_requests (sb_setQuery q st) = sb_requests st
    \<and> debounceTimer (sb_setQuery q st) = debounceTimer st)
   \<and> (length (trim e) = 0 \<longrightarrow>
      sb_requests (sb_setQuery e st)
        = (if e = query st then sb_requests st else sb_requests st @ [None])
    \<and> debounceTimer (sb_setQuery e st) = debounceTimer st)
   \<and> (length r < 2 \<longrightarrow> dp_requests (dp_handleSearch r sd) = dp_requests sd)"
  by (simp add: sb_setQuery_def query_effect_def Let_def dp_handleSearch_def)

theorem short_query_requests_witness:
  "length (trim '' a '') = 1 \<and> length (trim []) = 0 \<and> length ''a'' < 2
   \<and> debounceTimer (sb_setQuery ''ab'' sb_mount) = Some ''ab''
   \<and> sb_requests (sb_setQuery '' a '' (sb_setQuery ''ab'' sb_mount)) = [None, None]
   \<and> debounceTimer (sb_setQuery '' a '' (sb_setQuery ''ab'' sb_mount)) = Some ''ab''
   \<and> sb_requests (sb_setQuery [] (sb_setQuery ''ab'' sb_mount)) = [None, None, None]
   \<and> dp_requests (dp_handleSearch ''a'' dp_initial) = []"
proof -
  let ?st = "sb_setQuery ''ab'' sb_mount"
  have st: "sb_requests ?st = [None, None]" "debounceTimer ?st = Some ''ab''" "query ?st = ''ab''"
    by (simp_all add: sb_setQuery_def sb_mount_def query_effect_def Let_def trim_def whitespace_def)
  have t: "length (trim '' a '') = 1" "length (trim []) = 0"
    by (simp_all add: trim_def whitespace_def)
  show ?thesis
    using short_query_requests [where q = "'' a ''" and e = "[]" and st = ?st and r = "''a''"
        and sd = dp_initial] t
    by (simp add: st dp_initial_def)
qed

section \<open>Portfolio mutations and the list of portfolios\<close>

text \<open>
  Claim C5 as stated: every mutation is followed by a re-fetch of the list. Creating a
  portfolio and then deleting it issues the two mutation requests and no
  \<open>GET /api/portfolios\<close> after either.
\<close>

theorem create_delete_no_refetch_counterexample:
  "up_requests (createPortfolio ''Tech'' (Body example_portfolio) example_portfolios)
     = [GET_portfolios, POST_portfolios ''Tech'']
   \<and> up_requests (deletePortfolio ''p1'' (Body ())
        (createPortfolio ''Tech'' (Body example_portfolio) example_portfolios))
     = [GET_portfolios, POST_portfolios ''Tech'', DELETE_portfolio ''p1'']"
  by (simp add: createPortfolio_def deletePortfolio_def example_portfolios_def up_mount_def
      fetchPortfolios_def Let_def)

text \<open>
  Claim C5, amended. After adding or removing a holding the client re-fetches the full
  list from the backend and takes the response as its list. After creating a portfolio it
  appends the portfolio the backend returned to its own list, and after deleting one it
  removes the portfolios with that id from its own list; neither issues another request.
\<close>

theorem mutations_and_refetch:
  "up_requests (addHolding pid h (Body ()) listed st)
      = up_requests st @ [POST_holdings pid h, GET_portfolios]
   \<and> portfolios (addHolding pid h (Body ()) (Body (Listing ps)) st) = ps
   \<and> up_requests (removeHolding pid t (Body ()) listed st)
      = up_requests st @ [DELETE_holding pid t, GET_portfolios]
   \<and> portfolios (removeHolding pid t (Body ()) (Body (Listing ps)) st) = ps
   \<and> up_requests (createPortfolio name (Body new) st) = up_requests st @ [POST_portfolios name]
   \<and> portfolios (createPortfolio name (Body new) st) = portfolios st @ [new]
   \<and> up_requests (deletePortfolio pid (Body ()) st) = up_requests st @ [DELETE_portfolio pid]
   \<and> portfolios (deletePortfolio pid (Body ()) st)
      = filter (\<lambda>p. portfolio_id p \<noteq> pid) (portfolios st)"
  by (cases listed)
    (simp_all add: addHolding_def removeHolding_def createPortfolio_def deletePortfolio_def
      fetchPortfolios_def Let_def split: listing.splits)

section \<open>Adding a holding\<close>

lemma double_not_NaN: "double (Num x) \<noteq> NaN"
  by (simp add: double_def Let_def infinity_def)

lemma digit_not_special:
  "digit c \<Longrightarrow> c \<noteq> CHR ''-'' \<and> c \<noteq> CHR ''+'' \<and> c \<noteq> CHR ''.'' \<and> c \<noteq> CHR ''I'' \<and> \<not> whitespace c"
  by (auto simp: digit_def whitespace_def)

lemma point_not_special:
  "CHR ''.'' \<noteq> CHR ''-'' \<and> CHR ''.'' \<noteq> CHR ''+'' \<and> \<not> whitespace CHR ''.'' \<and> \<not> whitespace CHR ''-''"
  by (simp add: whitespace_def)

lemma all_dropped: "\<forall>x\<in>set s. P x \<Longrightarrow> dropWhile P s = []"
  by simp

lemma parseFloat_number:
  assumes "read_sign (trim_start s) = (negative, s1)" and "take 8 s1 \<noteq> ''Infinity''"
    and "has_digits s1"
  shows "parseFloat s \<noteq> NaN"
  using assms
  by (auto simp: parseFloat_def Let_def double_not_NaN has_digits_def
      dest: all_dropped split: list.splits)

lemma valid_has_digits:
  assumes "valid_floating_point_number s"
  shows "\<exists>negative s1. read_sign (trim_start s) = (negative, s1)
    \<and> take 8 s1 \<noteq> ''Infinity'' \<and> has_digits s1"
proof (cases s)
  case Nil
  with assms show ?thesis
    by (simp add: valid_floating_point_number_def)
next
  case (Cons c cs)
  show ?thesis
  proof (cases "c = CHR ''-''")
    case True
    with Cons assms have v: "has_digits cs"
      by (auto simp: valid_floating_point_number_def has_digits_def Let_def
          dest: all_dropped split: list.splits if_splits)
    then have "cs \<noteq> []"
      by (auto simp: has_digits_def)
    then obtain d ds where cs: "cs = d # ds"
      by (cases cs) auto
    with v have "digit d \<or> d = CHR ''.''"
      by (auto simp: has_digits_def split: if_splits list.splits)
    then have "take 8 cs \<noteq> ''Infinity''"
      using cs digit_not_special by auto
    moreover have "read_sign (trim_start s) = (True, cs)"
      using Cons True by (simp add: trim_start_def whitespace_def)
    ultimately show ?thesis
      using v by blast
  next
    case False
    with Cons assms have v: "has_digits s"
      by (auto simp: valid_floating_point_number_def has_digits_def Let_def
          dest: all_dropped split: list.splits if_splits)
    with Cons have first: "digit c \<or> c = CHR ''.''"
      by (auto simp: has_digits_def split: if_splits list.splits)
    then have "take 8 s \<noteq> ''Infinity''"
      using Cons digit_not_special by auto
    moreover have "read_sign (trim_start s) = (False, s)"
      using Cons first digit_not_special point_not_special
      by (auto simp: trim_start_def)
    ultimately show ?thesis
      using v by blast
  qed
qed

lemma valid_parses: "valid_floating_point_number s \<Longrightarrow> parseFloat s \<noteq> NaN"
  using valid_has_digits parseFloat_number by blast

lemma parseFloat_empty: "parseFloat [] = NaN"
  by (simp add: parseFloat_def trim_start_def)

lemma number_text_parses: "number_text s \<Longrightarrow> parseFloat s = NaN \<Longrightarrow> s = []"
  using valid_parses by (auto simp: number_text_def)

lemma number_text_one: "number_text ''1''"
  by (simp add: number_text_def valid_floating_point_number_def digit_def)

lemma number_text_empty: "number_text []"
  by (simp add: number_text_def)

lemma number_text_input: "number_text (number_input_value text)"
  by (simp add: number_text_def number_input_value_def)

lemma modal_step_shares:
  "number_text (modal_shares st) \<Longrightarrow> number_text (modal_shares (modal_step toUpperCase st ev))"
  by (cases ev)
    (auto simp: number_text_input handleAdd_def modal_effect_def Let_def split: option.splits)

lemma modal_run_shares:
  "number_text (modal_shares st) \<Longrightarrow> number_text (modal_shares (modal_run toUpperCase st evs))"
  unfolding modal_run_def by (induction evs arbitrary: st) (simp_all add: modal_step_shares)

lemma pv_step_shares:
  "number_text (new_shares (newHolding st)) \<Longrightarrow>
    number_text (new_shares (newHolding (pv_step toUpperCase st ev)))"
  by (cases ev)
    (auto simp: number_text_one number_text_empty handleAddHolding_def split: option.splits)

lemma pv_run_shares:
  "number_text (new_shares (newHolding st)) \<Longrightarrow>
    number_text (new_shares (newHolding (pv_run toUpperCase st evs)))"
  unfolding pv_run_def by (induction evs arbitrary: st) (simp_all add: pv_step_shares)

text \<open>
  Claim C6. In every state the modal reaches from its initial state (text typed into its
  fields, a portfolio chosen, its effect, earlier clicks on the add button), and in every
  state the portfolio view reaches, the add-holding handler returns without invoking the
  add callback, leaving the state as it is, when the ticker is the empty string or
  \<open>parseFloat\<close> makes \<open>NaN\<close> of the shares text. The handlers test the shares text for
  emptiness only; a shares text that is not empty is a valid floating-point number,
  because the modal's field is a number input, whose value is sanitised, and the view
  sets the text to \<open>1\<close> or to the empty string.
\<close>

theorem blank_or_non_numeric_holding_rejected:
  "(modal_ticker (modal_run toUpperCase (modal_initial initialTicker first) evs) = []
      \<or> parseFloat (modal_shares (modal_run toUpperCase (modal_initial initialTicker first) evs)) = NaN
    \<longrightarrow> handleAdd toUpperCase ctx (modal_run toUpperCase (modal_initial initialTicker first) evs)
          = modal_run toUpperCase (modal_initial initialTicker first) evs)
   \<and> (new_ticker (newHolding (pv_run toUpperCase pv_initial pevs)) = []
      \<or> parseFloat (new_shares (newHolding (pv_run toUpperCase pv_initial pevs))) = NaN
    \<longrightarrow> handleAddHolding toUpperCase (pv_run toUpperCase pv_initial pevs)
          = pv_run toUpperCase pv_initial pevs)"
proof -
  let ?m = "modal_run toUpperCase (modal_initial initialTicker first) evs"
  let ?v = "pv_run toUpperCase pv_initial pevs"
  have "number_text (modal_shares ?m)"
    by (rule modal_run_shares) (simp add: modal_initial_def number_text_one)
  then have m: "modal_shares ?m = []" if "parseFloat (modal_shares ?m) = NaN"
    using that by (rule number_text_parses)
  have "number_text (new_shares (newHolding ?v))"
    by (rule pv_run_shares) (simp add: pv_initial_def number_text_empty)
  then have v: "new_shares (newHolding ?v) = []" if "parseFloat (new_shares (newHolding ?v)) = NaN"
    using that by (rule number_text_parses)
  have "handleAdd toUpperCase ctx ?m = ?m"
    if "modal_ticker ?m = [] \<or> parseFloat (modal_shares ?m) = NaN"
    using that m by (auto simp: handleAdd_def)
  moreover have "handleAddHolding toUpperCase ?v = ?v"
    if "new_ticker (newHolding ?v) = [] \<or> parseFloat (new_shares (newHolding ?v)) = NaN"
    using that v by (auto simp: handleAddHolding_def split: option.splits)
  ultimately show ?thesis by blast
qed

theorem blank_or_non_numeric_holding_rejected_witness:
  "modal_ticker example_modal = ''AAPL'' \<and> selectedPortfolioId example_modal = ''p1''
   \<and> modal_shares example_modal = []
   \<and> parseFloat (modal_shares example_modal) = NaN
   \<and> new_ticker (newHolding example_view) = []
   \<and> selectedPortfolio example_view = Some ''p1''
   \<and> handleAdd example_toUpperCase example_context example_modal = example_modal
   \<and> onAdd_calls (handleAdd example_toUpperCase example_context example_modal) = []
   \<and> handleAddHolding example_toUpperCase example_view = example_view
   \<and> onAddHolding_calls (handleAddHolding example_toUpperCase example_view) = []"
proof -
  have invalid: "\<not> valid_floating_point_number ''abc''"
    by (simp add: valid_floating_point_number_def digit_def)
  have m: "modal_ticker example_modal = ''AAPL''" "selectedPortfolioId example_modal = ''p1''"
    "modal_shares example_modal = []" "onAdd_calls example_modal = []"
    by (simp_all add: example_modal_def modal_run_def modal_initial_def number_input_value_def
        invalid)
  have nan: "parseFloat (modal_shares example_modal) = NaN"
    by (simp add: m parseFloat_empty)
  have v: "new_ticker (newHolding example_view) = []"
    "selectedPortfolio example_view = Some ''p1''" "onAddHolding_calls example_view = []"
    by (simp_all add: example_view_def pv_run_def pv_initial_def)
  note main = blank_or_non_numeric_holding_rejected [of example_toUpperCase "''AAPL''" "''p1''"
      "[SharesInput ''abc'']" example_context "[PortfolioSelected (Some ''p1''), ModalOpened]",
      folded example_modal_def example_view_def]
  have c1: "handleAdd example_toUpperCase example_context example_modal = example_modal"
    using main nan by blast
  have c2: "handleAddHolding example_toUpperCase example_view = example_view"
    using main v(1) by blast
  have c3: "onAdd_calls (handleAdd example_toUpperCase example_context example_modal) = []"
    by (simp only: c1 m)
  have c4: "onAddHolding_calls (handleAddHolding example_toUpperCase example_view) = []"
    by (simp only: c2 v)
  from m(1-3) nan v(1,2) c1 c3 c2 c4 show ?thesis
    by (intro conjI)
qed


section \<open>Properties of the sentiment heatmap\<close>

lemma mset_place: "mset (place cmp x ys) = add_mset x (mset ys)"
  by (induction ys) auto

lemma mset_js_sort: "mset (js_sort cmp xs) = mset xs"
  by (induction xs) (auto simp: mset_place)

lemma set_place: "set (place cmp x ys) = insert x (set ys)"
  using mset_place [of cmp x ys] by (metis set_mset_add_mset_insert set_mset_mset)

lemma set_js_sort: "set (js_sort cmp xs) = set xs"
  using mset_js_sort [of cmp xs] by (metis set_mset_mset)

lemma positive_difference:
  "finite_number a \<Longrightarrow> finite_number b \<Longrightarrow> positive (js_minus b a) = (\<not> js_le b a)"
  by (cases a; cases b) auto

lemma js_le_total: "finite_number a \<Longrightarrow> finite_number b \<Longrightarrow> \<not> js_le b a \<Longrightarrow> js_le a b"
  by (cases a; cases b) auto

lemma js_le_trans:
  "js_le a b \<Longrightarrow> js_le b c \<Longrightarrow> js_le a c"
  by (cases a; cases b; cases c) auto

lemma place_descending:
  assumes "finite_number (key x)" and "\<forall>y \<in> set ys. finite_number (key y)"
    and "sorted_wrt (\<lambda>a b. js_le (key b) (key a)) ys"
  shows "sorted_wrt (\<lambda>a b. js_le (key b) (key a)) (place (\<lambda>a b. js_minus (key b) (key a)) x ys)"
  using assms
proof (induction ys)
  case Nil
  then show ?case by simp
next
  case (Cons y ys)
  let ?cmp = "\<lambda>a b. js_minus (key b) (key a)"
  have fy: "finite_number (key y)" using Cons.prems by simp
  show ?case
  proof (cases "positive (?cmp x y)")
    case True
    then have xy: "js_le (key x) (key y)"
      using positive_difference [OF Cons.prems(1) fy] js_le_total [OF Cons.prems(1) fy] by simp
    have "sorted_wrt (\<lambda>a b. js_le (key b) (key a)) (place ?cmp x ys)"
      using Cons by simp
    moreover have "\<forall>z \<in> set (place ?cmp x ys). js_le (key z) (key y)"
      using Cons.prems(3) xy by (auto simp: set_place)
    ultimately show ?thesis using True by simp
  next
    case False
    then have yx: "js_le (key y) (key x)"
      using positive_difference [OF Cons.prems(1) fy] by simp
    have "\<forall>z \<in> set ys. js_le (key z) (key x)"
      using Cons.prems(3) yx by (auto intro: js_le_trans)
    then show ?thesis using False yx Cons.prems(3) by simp
  qed
qed

lemma js_sort_descending:
  assumes "\<forall>x \<in> set xs. finite_number (key x)"
  shows "sorted_wrt (\<lambda>a b. js_le (key b) (key a)) (js_sort (\<lambda>a b. js_minus (key b) (key a)) xs)"
  using assms
proof (induction xs)
  case Nil
  show ?case by simp
next
  case (Cons x xs)
  then show ?case by (simp add: place_descending set_js_sort)
qed

lemma by_strength_eq: "by_strength = (\<lambda>a b. js_minus (strength b) (strength a))"
  by (simp add: by_strength_def fun_eq_iff)

lemma by_change_eq: "by_change_1w = (\<lambda>a b. js_minus (change_1w b) (change_1w a))"
  by (simp add: by_change_1w_def fun_eq_iff)

lemma render_card_store:
  assumes "refs_in_use store" and "render_card item store = (shown, store')"
  shows "refs_in_use store'"
    and "\<forall>r \<in> dom (stock_arrays store). stock_arrays store' r = stock_arrays store r"
    and "item_arrays store' = item_arrays store"
    and "card_item shown = item"
    and "sortedStocks shown = js_sort by_change_1w (stocks_of store (hot_stocks item))"
proof -
  have below: "r < next_ref store" if "stock_arrays store r = Some xs" for r xs
    using assms(1) that by (auto simp: refs_in_use_def)
  have fresh: "stock_arrays store (next_ref store) = None"
    using below [of "next_ref store"] by (cases "stock_arrays store (next_ref store)") auto
  have store': "store' = sort_stocks (next_ref store)
      (store\<lparr>stock_arrays := (stock_arrays store)(next_ref store \<mapsto> stocks_of store (hot_stocks item)),
             next_ref := Suc (next_ref store)\<rparr>)"
    and shown: "shown = \<lparr>card_item = item, isBullish = positive (sentiment_score item),
      sortedStocks = stocks_of store' (Some (next_ref store))\<rparr>"
    using assms(2) by (auto simp: render_card_def spread_stocks_def Let_def)
  have arrays: "stock_arrays store' = (stock_arrays store)
      (next_ref store \<mapsto> js_sort by_change_1w (stocks_of store (hot_stocks item)))"
    and nxt: "next_ref store' = Suc (next_ref store)"
    and items: "item_arrays store' = item_arrays store"
    unfolding store' by (simp_all add: sort_stocks_def)
  show "refs_in_use store'"
    unfolding refs_in_use_def arrays nxt using below by (auto simp: less_Suc_eq)
  show "\<forall>r \<in> dom (stock_arrays store). stock_arrays store' r = stock_arrays store r"
    unfolding arrays using fresh by auto
  show "item_arrays store' = item_arrays store"
    by (rule items)
  show "card_item shown = item"
    by (simp add: shown)
  show "sortedStocks shown = js_sort by_change_1w (stocks_of store (hot_stocks item))"
    by (simp add: shown stocks_of_def arrays)
qed

lemma render_cards_store:
  assumes "refs_in_use store" and "render_cards items store = (cards, store')"
    and "\<forall>i \<in> set items. \<forall>r. hot_stocks i = Some r \<longrightarrow> r \<in> dom (stock_arrays store)"
  shows "refs_in_use store'
    \<and> (\<forall>r \<in> dom (stock_arrays store). stock_arrays store' r = stock_arrays store r)
    \<and> item_arrays store' = item_arrays store
    \<and> map card_item cards = items
    \<and> map sortedStocks cards
        = map (\<lambda>i. js_sort by_change_1w (stocks_of store (hot_stocks i))) items"
  using assms
proof (induction items arbitrary: store cards store')
  case Nil
  then show ?case by simp
next
  case (Cons item items)
  obtain shown s1 where c: "render_card item store = (shown, s1)"
    by (cases "render_card item store")
  obtain rest s2 where r: "render_cards items s1 = (rest, s2)"
    by (cases "render_cards items s1")
  from Cons.prems(2) c r have eq: "cards = shown # rest" "store' = s2"
    by simp_all
  note one = render_card_store [OF Cons.prems(1) c]
  have dom1: "dom (stock_arrays store) \<subseteq> dom (stock_arrays s1)"
    using one(2) by (auto simp: dom_def)
  have refs: "\<forall>i \<in> set items. \<forall>r. hot_stocks i = Some r \<longrightarrow> r \<in> dom (stock_arrays s1)"
  proof (intro ballI allI impI)
    fix i r
    assume "i \<in> set items" and "hot_stocks i = Some r"
    with Cons.prems(3) have "r \<in> dom (stock_arrays store)" by simp
    with dom1 show "r \<in> dom (stock_arrays s1)" by (rule subsetD)
  qed
  note ih = Cons.IH [OF one(1) r refs]
  have same: "stocks_of s1 (hot_stocks i) = stocks_of store (hot_stocks i)" if "i \<in> set items" for i
  proof (cases "hot_stocks i")
    case None
    then show ?thesis by (simp add: stocks_of_def)
  next
    case (Some r)
    with that Cons.prems(3) have "r \<in> dom (stock_arrays store)" by auto
    with one(2) have "stock_arrays s1 r = stock_arrays store r" by simp
    with Some show ?thesis by (simp add: stocks_of_def)
  qed
  have "\<forall>r \<in> dom (stock_arrays store). stock_arrays s2 r = stock_arrays store r"
  proof
    fix r
    assume r: "r \<in> dom (stock_arrays store)"
    with dom1 have "r \<in> dom (stock_arrays s1)" by (rule subsetD)
    with ih have "stock_arrays s2 r = stock_arrays s1 r" by simp
    also from one(2) r have "\<dots> = stock_arrays store r" by simp
    finally show "stock_arrays s2 r = stock_arrays store r" .
  qed
  moreover have "map sortedStocks rest
      = map (\<lambda>i. js_sort by_change_1w (stocks_of store (hot_stocks i))) items"
    using ih same by simp
  ultimately show ?case
    using ih one eq by simp
qed


text \<open>
  Claim C10. For a fetched heatmap whose strengths and one-week changes are finite
  numbers, the cards are the fetched entries in non-increasing order of strength, and the
  popover of each card lists the entry's hot stocks in non-increasing order of
  \<open>change_1w\<close>. The hot stocks are sorted in a new array: every stock array the store
  held before the render holds the same elements in the same order after it, so each
  entry's \<open>hot_stocks\<close> is as fetched.
\<close>

theorem heatmap_rendered_descending:
  assumes "item_arrays store heatmap = Some items"
    and "refs_in_use store"
    and "\<forall>i \<in> set items. finite_number (strength i)"
    and "\<forall>i \<in> set items. \<forall>r. hot_stocks i = Some r \<longrightarrow> r \<in> dom (stock_arrays store)"
    and "\<forall>i \<in> set items. \<forall>s \<in> set (stocks_of store (hot_stocks i)). finite_number (change_1w s)"
    and "render_heatmap heatmap store = (cards, store')"
  shows "sorted_wrt (\<lambda>a b. js_le (strength b) (strength a)) (map card_item cards)
    \<and> mset (map card_item cards) = mset items
    \<and> (\<forall>c \<in> set cards.
          sorted_wrt (\<lambda>a b. js_le (change_1w b) (change_1w a)) (sortedStocks c)
        \<and> mset (sortedStocks c) = mset (stocks_of store (hot_stocks (card_item c)))
        \<and> stocks_of store' (hot_stocks (card_item c)) = stocks_of store (hot_stocks (card_item c)))
    \<and> (\<forall>r \<in> dom (stock_arrays store). stock_arrays store' r = stock_arrays store r)"
proof -
  let ?sorted = "js_sort by_strength items"
  let ?s1 = "sort_items heatmap store"
  have s1: "item_arrays ?s1 heatmap = Some ?sorted" "stock_arrays ?s1 = stock_arrays store"
    "next_ref ?s1 = next_ref store"
    using assms(1) by (simp_all add: sort_items_def)
  have refs1: "refs_in_use ?s1"
    using assms(2) by (simp add: refs_in_use_def s1)
  have run: "render_cards ?sorted ?s1 = (cards, store')"
    using assms(6) by (simp add: render_heatmap_def Let_def s1)
  have same_set: "set ?sorted = set items"
    by (rule set_js_sort)
  have dangling: "\<forall>i \<in> set ?sorted. \<forall>r. hot_stocks i = Some r \<longrightarrow> r \<in> dom (stock_arrays ?s1)"
    using assms(4) by (simp add: same_set s1)
  note rc = render_cards_store [OF refs1 run dangling]
  have of_s1: "stocks_of ?s1 ref = stocks_of store ref" for ref
    by (simp add: stocks_of_def s1 split: option.splits)
  have items: "map card_item cards = ?sorted"
    using rc by simp
  have stocks: "map sortedStocks cards
      = map (\<lambda>i. js_sort by_change_1w (stocks_of store (hot_stocks i))) ?sorted"
    using rc by (simp add: of_s1)
  have kept: "\<forall>r \<in> dom (stock_arrays store). stock_arrays store' r = stock_arrays store r"
    using rc by (simp add: s1)
  have order: "sorted_wrt (\<lambda>a b. js_le (strength b) (strength a)) (map card_item cards)"
    unfolding items by_strength_eq using assms(3) by (rule js_sort_descending)
  have perm: "mset (map card_item cards) = mset items"
    unfolding items by (rule mset_js_sort)
  have each: "sorted_wrt (\<lambda>a b. js_le (change_1w b) (change_1w a)) (sortedStocks c)
      \<and> mset (sortedStocks c) = mset (stocks_of store (hot_stocks (card_item c)))
      \<and> stocks_of store' (hot_stocks (card_item c)) = stocks_of store (hot_stocks (card_item c))"
    if c: "c \<in> set cards" for c
  proof -
    from c obtain n where n: "n < length cards" "cards ! n = c"
      by (auto simp: in_set_conv_nth)
    have len: "length ?sorted = length cards"
      using items by (metis length_map)
    have item: "card_item c = ?sorted ! n"
      using n items by (metis nth_map)
    have "sortedStocks c = map sortedStocks cards ! n"
      using n by simp
    also have "\<dots> = js_sort by_change_1w (stocks_of store (hot_stocks (card_item c)))"
      unfolding stocks using n len by (simp add: item)
    finally have shown: "sortedStocks c = js_sort by_change_1w (stocks_of store (hot_stocks (card_item c)))" .
    have member: "card_item c \<in> set items"
      using n len item same_set by (metis nth_mem)
    have "\<forall>s \<in> set (stocks_of store (hot_stocks (card_item c))). finite_number (change_1w s)"
      using assms(5) member by simp
    then have "sorted_wrt (\<lambda>a b. js_le (change_1w b) (change_1w a)) (sortedStocks c)"
      unfolding shown by_change_eq by (rule js_sort_descending)
    moreover have "mset (sortedStocks c) = mset (stocks_of store (hot_stocks (card_item c)))"
      unfolding shown by (rule mset_js_sort)
    moreover have "stocks_of store' (hot_stocks (card_item c)) = stocks_of store (hot_stocks (card_item c))"
    proof (cases "hot_stocks (card_item c)")
      case None
      then show ?thesis by (simp add: stocks_of_def)
    next
      case (Some r)
      with assms(4) member have "r \<in> dom (stock_arrays store)" by simp
      with kept have "stock_arrays store' r = stock_arrays store r" by simp
      with Some show ?thesis by (simp add: stocks_of_def)
    qed
    ultimately show ?thesis by simp
  qed
  from order perm each kept show ?thesis by simp
qed

lemma example_render:
  "map (sector \<circ> card_item) (fst (render_heatmap 0 example_heap)) = [''Tech'', ''Health'', ''Energy'']"
  "map (map stock_ticker \<circ> sortedStocks) (fst (render_heatmap 0 example_heap))
     = [[''NVDA'', ''MSFT'', ''AMD''], [], []]"
  "stock_arrays (snd (render_heatmap 0 example_heap)) 1 = Some example_stocks"
  by (simp_all add: render_heatmap_def example_heap_def example_heatmap_def example_stocks_def
      sort_items_def by_strength_def render_card_def spread_stocks_def sort_stocks_def
      stocks_of_def by_change_1w_def Let_def)


theorem heatmap_rendered_descending_witness:
  "item_arrays example_heap 0 = Some example_heatmap
   \<and> refs_in_use example_heap
   \<and> list_all (\<lambda>i. finite_number (strength i)) example_heatmap
   \<and> list_all (\<lambda>i. case hot_stocks i of None \<Rightarrow> True | Some r \<Rightarrow> r \<in> dom (stock_arrays example_heap))
        example_heatmap
   \<and> list_all (\<lambda>i. list_all (\<lambda>s. finite_number (change_1w s)) (stocks_of example_heap (hot_stocks i)))
        example_heatmap
   \<and> sorted_wrt (\<lambda>a b. js_le (strength b) (strength a))
        (map card_item (fst (render_heatmap 0 example_heap)))
   \<and> mset (map card_item (fst (render_heatmap 0 example_heap))) = mset example_heatmap
   \<and> map (sector \<circ> card_item) (fst (render_heatmap 0 example_heap))
        = [''Tech'', ''Health'', ''Energy'']
   \<and> map (map stock_ticker \<circ> sortedStocks) (fst (render_heatmap 0 example_heap))
        = [[''NVDA'', ''MSFT'', ''AMD''], [], []]
   \<and> stock_arrays (snd (render_heatmap 0 example_heap)) 1 = Some example_stocks
   \<and> stock_arrays (snd (render_heatmap 0 example_heap)) 2 = Some []"
proof -
  have h1: "item_arrays example_heap 0 = Some example_heatmap"
    by (simp add: example_heap_def)
  have h2: "refs_in_use example_heap"
    by (simp add: refs_in_use_def example_heap_def)
  have h3: "\<forall>i \<in> set example_heatmap. finite_number (strength i)"
    by (simp add: example_heatmap_def)
  have h4: "\<forall>i \<in> set example_heatmap. \<forall>r. hot_stocks i = Some r \<longrightarrow> r \<in> dom (stock_arrays example_heap)"
    by (simp add: example_heatmap_def example_heap_def)
  have h5: "\<forall>i \<in> set example_heatmap. \<forall>s \<in> set (stocks_of example_heap (hot_stocks i)).
      finite_number (change_1w s)"
    by (simp add: example_heatmap_def example_heap_def stocks_of_def example_stocks_def)
  have h6: "render_heatmap 0 example_heap
      = (fst (render_heatmap 0 example_heap), snd (render_heatmap 0 example_heap))"
    by simp
  have l4: "list_all (\<lambda>i. case hot_stocks i of None \<Rightarrow> True | Some r \<Rightarrow> r \<in> dom (stock_arrays example_heap))
      example_heatmap"
    by (simp add: example_heatmap_def example_heap_def)
  have l3: "list_all (\<lambda>i. finite_number (strength i)) example_heatmap"
    using h3 by (simp add: list_all_iff)
  have l5: "list_all (\<lambda>i. list_all (\<lambda>s. finite_number (change_1w s))
      (stocks_of example_heap (hot_stocks i))) example_heatmap"
    using h5 by (simp add: list_all_iff)
  note main = heatmap_rendered_descending [OF h1 h2 h3 h4 h5 h6]
  from main have ordered: "sorted_wrt (\<lambda>a b. js_le (strength b) (strength a))
      (map card_item (fst (render_heatmap 0 example_heap)))"
    and same: "mset (map card_item (fst (render_heatmap 0 example_heap))) = mset example_heatmap"
    and kept: "\<forall>r \<in> dom (stock_arrays example_heap).
      stock_arrays (snd (render_heatmap 0 example_heap)) r = stock_arrays example_heap r"
    by blast+
  have "1 \<in> dom (stock_arrays example_heap)" "2 \<in> dom (stock_arrays example_heap)"
    by (simp_all add: example_heap_def)
  with kept have "stock_arrays (snd (render_heatmap 0 example_heap)) 1 = stock_arrays example_heap 1"
    and "stock_arrays (snd (render_heatmap 0 example_heap)) 2 = stock_arrays example_heap 2"
    by blast+
  then have fetched: "stock_arrays (snd (render_heatmap 0 example_heap)) 1 = Some example_stocks"
    "stock_arrays (snd (render_heatmap 0 example_heap)) 2 = Some []"
    by (simp_all add: example_heap_def)
  from h1 h2 l3 l4 l5 ordered same example_render(1,2) fetched show ?thesis
    by (intro conjI)
qed

end
